theory Spec2Isabelle
  imports Main "HOL-Library.Sublist"
begin

section \<open>Data model of \<^verbatim>\<open>src/lib/webrtc-service.ts\<close>\<close>

text \<open>
  The service keeps its session in module-level variables and talks to three collaborators:
  the browser's peer connection (the negotiation engine), the backend relay (HTTP) and the
  UI callbacks. The embedding passes the module variables around as one record and appends
  every call made to a collaborator to a log, in program order.
\<close>

datatype CallState = Idle | Calling | Ringing | Answered | Ended | Rejected

datatype RTCSignalingState =
  Stable | HaveLocalOffer | HaveRemoteOffer | HaveLocalPranswer | HaveRemotePranswer | Closed

record RTCSessionDescriptionInit =
  sd_type :: string
  sd_sdp :: string

type_synonym RTCIceCandidateInit = string

text \<open>
  The peer connection object. \<open>pcid\<close> stands for the object's identity: the source compares
  connections by reference (\<^verbatim>\<open>currentPc !== pc\<close>).
\<close>

record RTCPeerConnection =
  pcid :: nat
  signalingState :: RTCSignalingState
  remoteDescription :: "RTCSessionDescriptionInit option"
  localDescription :: "RTCSessionDescriptionInit option"

text \<open>The payload of the socket event \<^verbatim>\<open>ice-candidate\<close>; a null candidate ends gathering.\<close>

record IceCandidateData =
  ice_callId :: string
  ice_candidate :: "RTCIceCandidateInit option"
  ice_fromDeviceId :: string

text \<open>
  Calls made to the collaborators: the two UI callbacks, the engine operations, the media
  tracks, the relay's \<^verbatim>\<open>POST /api/calls\<close> and \<^verbatim>\<open>POST /api/calls/{id}/end\<close> (with the
  \<^verbatim>\<open>reason\<close> of the body when there is one), and \<^verbatim>\<open>setTimeout\<close>.
\<close>

datatype effect =
    UiCallStateChange CallState "string option"
  | UiCallActiveChange bool "nat option"
  | EngineSetRemoteDescription nat RTCSessionDescriptionInit
  | EngineSetLocalDescription nat RTCSessionDescriptionInit
  | EngineAddIceCandidate nat RTCIceCandidateInit
  | EngineClose nat
  | TrackStop nat
  | RelayCreateCall "string option" string string
  | RelayEnd string "string option"
  | SetTimeout nat

record service =
  pc :: "RTCPeerConnection option"
  localStream :: "nat list option"
  remoteStream :: "nat list option"
  activeCallUUID :: "string option"
  currentLoyaltyId :: "string option"
  currentDeviceId :: "string option"
  activeCallStartedAt :: "nat option"
  isVoipInitialized :: bool
  currentCallState :: CallState
  callerName :: "string option"
  isMuted :: bool
  isSpeakerEnabled :: bool
  queuedIceCandidates :: "IceCandidateData list"
  onCallStateChange :: bool
  onCallActiveChange :: bool
  clock :: nat
  effects :: "effect list"

text \<open>
  A media stream is the list of its track identifiers. \<open>onCallStateChange\<close> and
  \<open>onCallActiveChange\<close> say whether a callback is registered (the source calls them with
  \<^verbatim>\<open>?.\<close>); \<open>clock\<close> is what \<^verbatim>\<open>Date.now()\<close> returns. The socket itself, the
  legacy \<^verbatim>\<open>currentUserId\<close> and console output are not part of the record.

  All events run on one event loop. A handler is modelled as one uninterrupted run: the
  waits on the engine and on the relay inside a handler are taken to complete before any
  other handler runs. Only the polling loop of \<^verbatim>\<open>waitForAnswerHTTP\<close> is cut at its
  waits, where the rest of the program may change the session.
\<close>

subsection \<open>JavaScript truthiness\<close>

definition truthy_str :: "string option \<Rightarrow> bool" where
  "truthy_str x = (case x of None \<Rightarrow> False | Some v \<Rightarrow> v \<noteq> [])"

text \<open>The string behind a truthy value (the empty string otherwise).\<close>

definition str_of :: "string option \<Rightarrow> string" where
  "str_of x = (case x of None \<Rightarrow> [] | Some v \<Rightarrow> v)"

definition truthy_num :: "nat option \<Rightarrow> bool" where
  "truthy_num x = (case x of None \<Rightarrow> False | Some n \<Rightarrow> n \<noteq> 0)"

subsection \<open>The negotiation engine\<close>

text \<open>
  The engine is the browser's, not the repository's, so its answer to
  \<^verbatim>\<open>setRemoteDescription\<close> is a parameter: from the signaling state it is called in and
  the description, it either resolves, giving the new signaling state, or rejects with an
  error message, giving the signaling state the caller observes afterwards.
\<close>

datatype srd_result = SrdOk RTCSignalingState | SrdThrows string RTCSignalingState

type_synonym engine = "RTCSignalingState \<Rightarrow> RTCSessionDescriptionInit \<Rightarrow> srd_result"

text \<open>The test the source applies to an error message, three times over.\<close>

definition wrongStateMessage :: "string \<Rightarrow> bool" where
  "wrongStateMessage errorMsg =
     (sublist ''wrong state'' errorMsg \<or> sublist ''stable'' errorMsg
      \<or> sublist ''Called in wrong state'' errorMsg)"

subsection \<open>UI callbacks\<close>

definition log :: "effect \<Rightarrow> service \<Rightarrow> service" where
  "log e s = s\<lparr>effects := effects s @ [e]\<rparr>"

definition callStateChanged :: "CallState \<Rightarrow> string option \<Rightarrow> service \<Rightarrow> service" where
  "callStateChanged st name s =
     (if onCallStateChange s then log (UiCallStateChange st name) s else s)"

definition callActiveChanged :: "bool \<Rightarrow> nat option \<Rightarrow> service \<Rightarrow> service" where
  "callActiveChanged isActive startedAt s =
     (if onCallActiveChange s then log (UiCallActiveChange isActive startedAt) s else s)"

section \<open>The candidate queue\<close>

text \<open>
  The loop of \<^verbatim>\<open>processQueuedIceCandidates\<close>: each entry is handed to
  \<^verbatim>\<open>pc.addIceCandidate\<close> when it carries a candidate and the connection still has a remote
  description. An error thrown by the engine is caught and only logged to the console, so
  it leaves no trace in the state.
\<close>

fun addQueuedCandidates :: "IceCandidateData list \<Rightarrow> service \<Rightarrow> service" where
  "addQueuedCandidates [] s = s"
| "addQueuedCandidates (d # ds) s =
     addQueuedCandidates ds
       (case ice_candidate d of
          None \<Rightarrow> s
        | Some c \<Rightarrow>
            (case pc s of
               None \<Rightarrow> s
             | Some p \<Rightarrow>
                 if remoteDescription p \<noteq> None
                 then log (EngineAddIceCandidate (pcid p) c) s else s))"

definition processQueuedIceCandidates :: "string \<Rightarrow> service \<Rightarrow> service" where
  "processQueuedIceCandidates cid s =
     (case pc s of
        None \<Rightarrow> s
      | Some p \<Rightarrow>
          if remoteDescription p = None then s
          else
            let candidatesToProcess = filter (\<lambda>c. ice_callId c = cid) (queuedIceCandidates s)
            in if candidatesToProcess = [] then s
               else addQueuedCandidates candidatesToProcess
                      (s\<lparr>queuedIceCandidates :=
                           filter (\<lambda>c. ice_callId c \<noteq> cid) (queuedIceCandidates s)\<rparr>))"

text \<open>The socket handler of \<^verbatim>\<open>ice-candidate\<close>.\<close>

definition onIceCandidate :: "IceCandidateData \<Rightarrow> service \<Rightarrow> service" where
  "onIceCandidate d s =
     (case ice_candidate d of
        None \<Rightarrow> s
      | Some c \<Rightarrow>
          (case pc s of
             None \<Rightarrow> s
           | Some p \<Rightarrow>
               if activeCallUUID s = Some (ice_callId d) then
                 if remoteDescription p = None
                 then s\<lparr>queuedIceCandidates := queuedIceCandidates s @ [d]\<rparr>
                 else log (EngineAddIceCandidate (pcid p) c) s
               else s))"

section \<open>Teardown\<close>

text \<open>The steps of \<^verbatim>\<open>endVoiceCall\<close>, in the order of the source.\<close>

definition clearQueuedIceCandidates :: "service \<Rightarrow> service" where
  "clearQueuedIceCandidates s =
     (if queuedIceCandidates s \<noteq> [] then s\<lparr>queuedIceCandidates := []\<rparr> else s)"

definition closePeerConnection :: "service \<Rightarrow> service" where
  "closePeerConnection s =
     (case pc s of
        None \<Rightarrow> s
      | Some p \<Rightarrow> (log (EngineClose (pcid p)) s)\<lparr>pc := None\<rparr>)"

definition stopLocalStream :: "service \<Rightarrow> service" where
  "stopLocalStream s =
     (case localStream s of
        None \<Rightarrow> s
      | Some ts \<Rightarrow> (s\<lparr>effects := effects s @ map TrackStop ts\<rparr>)\<lparr>localStream := None\<rparr>)"

definition stopRemoteStream :: "service \<Rightarrow> service" where
  "stopRemoteStream s =
     (case remoteStream s of
        None \<Rightarrow> s
      | Some ts \<Rightarrow> (s\<lparr>effects := effects s @ map TrackStop ts\<rparr>)\<lparr>remoteStream := None\<rparr>)"

definition notifyRelayOfEnd :: "service \<Rightarrow> service" where
  "notifyRelayOfEnd s =
     (case activeCallUUID s of
        None \<Rightarrow> s
      | Some u \<Rightarrow>
          if u \<noteq> [] \<and> truthy_str (currentDeviceId s) then log (RelayEnd u None) s else s)"

definition resetCallVariables :: "service \<Rightarrow> service" where
  "resetCallVariables s =
     s\<lparr>activeCallUUID := None, activeCallStartedAt := None,
       currentCallState := Idle, callerName := None\<rparr>"

definition endVoiceCall :: "service \<Rightarrow> service" where
  "endVoiceCall s =
     callActiveChanged False None
       (callStateChanged Idle None
          (resetCallVariables
             (notifyRelayOfEnd
                (stopRemoteStream
                   (stopLocalStream
                      (closePeerConnection
                         (clearQueuedIceCandidates s)))))))"

definition endCall :: "service \<Rightarrow> service" where
  "endCall s = endVoiceCall s"

record CallStateInfo =
  cs_state :: CallState
  cs_callerName :: "string option"
  cs_isMuted :: bool
  cs_isSpeakerEnabled :: bool
  cs_callUUID :: "string option"

definition getCallState :: "service \<Rightarrow> CallStateInfo" where
  "getCallState s =
     \<lparr>cs_state = currentCallState s, cs_callerName = callerName s,
      cs_isMuted = isMuted s, cs_isSpeakerEnabled = isSpeakerEnabled s,
      cs_callUUID = activeCallUUID s\<rparr>"

record ActiveCallInfo =
  ai_isActive :: bool
  ai_startedAt :: "nat option"

definition getActiveCallInfo :: "service \<Rightarrow> ActiveCallInfo" where
  "getActiveCallInfo s =
     \<lparr>ai_isActive = (currentCallState s = Answered \<and> activeCallStartedAt s \<noteq> None),
      ai_startedAt = activeCallStartedAt s\<rparr>"

section \<open>Answer handling\<close>

text \<open>
  What \<^verbatim>\<open>await pc.setRemoteDescription(d)\<close> leaves behind: the call is logged; when the
  engine resolves, the connection has the new signaling state and \<open>d\<close> as its remote
  description; when it rejects, only the signaling state the engine reports is taken over.
\<close>

definition srdResolved ::
  "RTCPeerConnection \<Rightarrow> RTCSignalingState \<Rightarrow> RTCSessionDescriptionInit \<Rightarrow> service \<Rightarrow> service" where
  "srdResolved p st d s =
     (log (EngineSetRemoteDescription (pcid p) d) s)
       \<lparr>pc := Some (p\<lparr>signalingState := st, remoteDescription := Some d\<rparr>)\<rparr>"

definition srdRejected ::
  "RTCPeerConnection \<Rightarrow> RTCSignalingState \<Rightarrow> RTCSessionDescriptionInit \<Rightarrow> service \<Rightarrow> service" where
  "srdRejected p st d s =
     (log (EngineSetRemoteDescription (pcid p) d) s)\<lparr>pc := Some (p\<lparr>signalingState := st\<rparr>)\<rparr>"

text \<open>
  The two blocks the handlers end with. The first starts the timer unconditionally
  (\<^verbatim>\<open>activeCallStartedAt = Date.now()\<close>), the second only when none is running
  (\<^verbatim>\<open>if (!activeCallStartedAt) ...\<close>); both then call the two UI callbacks.
\<close>

definition answeredRestart :: "service \<Rightarrow> service" where
  "answeredRestart s =
     (let s1 = s\<lparr>currentCallState := Answered, activeCallStartedAt := Some (clock s)\<rparr>
      in callActiveChanged True (activeCallStartedAt s1)
           (callStateChanged Answered (callerName s1) s1))"

definition answeredBackfill :: "service \<Rightarrow> service" where
  "answeredBackfill s =
     (let s1 = s\<lparr>currentCallState := Answered\<rparr>;
          s2 = (if \<not> truthy_num (activeCallStartedAt s1)
                then s1\<lparr>activeCallStartedAt := Some (clock s1)\<rparr> else s1)
      in callActiveChanged True (activeCallStartedAt s2)
           (callStateChanged Answered (callerName s2) s2))"

record AnswerData =
  ans_callId :: string
  ans_answer :: RTCSessionDescriptionInit
  ans_fromDeviceId :: string

text \<open>The global socket handler of \<^verbatim>\<open>answer\<close> (the push channel).\<close>

definition onAnswer :: "engine \<Rightarrow> AnswerData \<Rightarrow> service \<Rightarrow> service" where
  "onAnswer E d s =
     (case pc s of
        None \<Rightarrow> s
      | Some p \<Rightarrow>
          if activeCallUUID s \<noteq> Some (ans_callId d) then s
          else
            let st = signalingState p;
                answerAlreadySet = (st = Stable \<or> st = HaveRemotePranswer);
                shouldProcess =
                  ((currentCallState s = Calling \<or> currentCallState s = Ringing)
                   \<or> (currentCallState s = Answered \<and> \<not> answerAlreadySet))
            in if \<not> shouldProcess then s
               else if st = HaveLocalOffer then
                 (case E st (ans_answer d) of
                    SrdOk st' \<Rightarrow>
                      answeredRestart
                        (processQueuedIceCandidates (ans_callId d)
                           (srdResolved p st' (ans_answer d) s))
                  | SrdThrows errorMsg st' \<Rightarrow>
                      let s1 = srdRejected p st' (ans_answer d) s
                      in if wrongStateMessage errorMsg then
                           (if st' = Stable \<or> st' = HaveRemotePranswer
                            then answeredBackfill
                                   (processQueuedIceCandidates (ans_callId d) s1)
                            else s1)
                         else s1)
               else if st = Stable \<or> st = HaveRemotePranswer then
                 answeredBackfill (processQueuedIceCandidates (ans_callId d) s)
               else
                 (case E st (ans_answer d) of
                    SrdOk st' \<Rightarrow>
                      answeredBackfill
                        (processQueuedIceCandidates (ans_callId d)
                           (srdResolved p st' (ans_answer d) s))
                  | SrdThrows errorMsg st' \<Rightarrow> srdRejected p st' (ans_answer d) s))"

text \<open>
  The HTTP fallback. \<open>http_result\<close> is what \<^verbatim>\<open>GET /api/calls/{id}\<close> gives: the fetch (or
  the JSON parse) throws, the response is not ok, or it is ok and may carry an answer.
  \<open>pollAnswer\<close> is the \<^verbatim>\<open>try\<close> block of one iteration of \<^verbatim>\<open>waitForAnswerHTTP\<close>, from
  the response on; it returns \<open>True\<close> where the source returns from the function and
  \<open>False\<close> where the loop goes on.
\<close>

datatype http_result = FetchThrows | RespNotOk | RespOk "RTCSessionDescriptionInit option"

definition pollAnswer ::
  "engine \<Rightarrow> string \<Rightarrow> nat \<Rightarrow> http_result \<Rightarrow> service \<Rightarrow> bool \<times> service" where
  "pollAnswer E cid currentPc resp s =
     (case resp of
        FetchThrows \<Rightarrow> (False, s)
      | RespNotOk \<Rightarrow> (False, s)
      | RespOk None \<Rightarrow> (False, s)
      | RespOk (Some a) \<Rightarrow>
          (case pc s of
             None \<Rightarrow> (False, s)
           | Some p \<Rightarrow>
               if sd_sdp a = [] \<or> pcid p \<noteq> currentPc then (False, s)
               else
                 let st = signalingState p;
                     answerAlreadySet = (st = Stable \<or> st = HaveRemotePranswer)
                 in if st = HaveLocalOffer then
                      (case E st a of
                         SrdOk st' \<Rightarrow>
                           (True, answeredRestart
                                    (processQueuedIceCandidates cid (srdResolved p st' a s)))
                       | SrdThrows errorMsg st' \<Rightarrow>
                           if wrongStateMessage errorMsg
                           then (True, answeredBackfill (srdRejected p st' a s))
                           else (False, srdRejected p st' a s))
                    else if answerAlreadySet then (True, answeredBackfill s)
                    else (False, s)))"

text \<open>
  The loop of \<^verbatim>\<open>waitForAnswerHTTP\<close>. Between two steps of the loop anything else may run
  on the event loop: \<open>during_sleep\<close> is what happens to the session while iteration \<open>i\<close>
  sleeps, \<open>during_fetch\<close> what happens while it waits for the response. The loop returns
  the session and its own input/output, in order.
\<close>

datatype poll_io = Sleep nat | Fetch string

record poll_env =
  during_sleep :: "service \<Rightarrow> service"
  response :: http_result
  during_fetch :: "service \<Rightarrow> service"

definition callCeased :: "nat \<Rightarrow> service \<Rightarrow> bool" where
  "callCeased currentPc s =
     ((case pc s of None \<Rightarrow> True | Some p \<Rightarrow> pcid p \<noteq> currentPc)
      \<or> \<not> truthy_str (activeCallUUID s))"

function waitForAnswerHTTP_loop ::
  "engine \<Rightarrow> string \<Rightarrow> nat \<Rightarrow> (nat \<Rightarrow> poll_env) \<Rightarrow> nat \<Rightarrow> service \<Rightarrow> service \<times> poll_io list" where
  "waitForAnswerHTTP_loop E cid currentPc env i s =
     (if i < 30 then
        let s1 = during_sleep (env i) s
        in if callCeased currentPc s1 then (s1, [Sleep 1000])
           else
             let r = pollAnswer E cid currentPc (response (env i)) (during_fetch (env i) s1)
             in if fst r then (snd r, [Sleep 1000, Fetch cid])
                else
                  let rest = waitForAnswerHTTP_loop E cid currentPc env (Suc i) (snd r)
                  in (fst rest, Sleep 1000 # Fetch cid # snd rest)
      else (s, []))"
  by pat_completeness auto
termination
  by (relation "measure (\<lambda>(E, cid, currentPc, env, i, s). 30 - i)") auto

definition waitForAnswerHTTP ::
  "engine \<Rightarrow> string \<Rightarrow> (nat \<Rightarrow> poll_env) \<Rightarrow> service \<Rightarrow> service \<times> poll_io list" where
  "waitForAnswerHTTP E cid env s =
     (case pc s of
        None \<Rightarrow> (s, [])
      | Some p \<Rightarrow> waitForAnswerHTTP_loop E cid (pcid p) env 0 s)"

section \<open>A push event and its two listeners\<close>

text \<open>
  While \<^verbatim>\<open>waitForAnswer\<close> waits (and with it the HTTP poll it has started), the socket
  event \<^verbatim>\<open>answer\<close> has two listeners: the global one above and the one \<^verbatim>\<open>waitForAnswer\<close>
  registers for itself. The socket calls them one after the other, each up to its first
  \<^verbatim>\<open>await\<close>; what stands after an \<^verbatim>\<open>await\<close> runs only when both have been called. A call
  of \<^verbatim>\<open>setRemoteDescription\<close> is therefore made at once, but the engine works it off, and
  changes the signaling state, only afterwards, one call after the other in the order they
  were made. The drain of the candidate queue is kept in one piece.

  \<open>answer_wait\<close> says what the global listener waits for after its first part: nothing,
  the engine's verdict on the call made in \<open>have-local-offer\<close>, the drain, or the engine's
  verdict on the call made in another phase.
\<close>

datatype answer_wait = NotWaiting | AwaitFirstSet | AwaitDrain | AwaitRetrySet

definition onAnswer_sync :: "AnswerData \<Rightarrow> service \<Rightarrow> answer_wait \<times> service" where
  "onAnswer_sync d s =
     (case pc s of
        None \<Rightarrow> (NotWaiting, s)
      | Some p \<Rightarrow>
          if activeCallUUID s \<noteq> Some (ans_callId d) then (NotWaiting, s)
          else
            let st = signalingState p;
                answerAlreadySet = (st = Stable \<or> st = HaveRemotePranswer);
                shouldProcess =
                  ((currentCallState s = Calling \<or> currentCallState s = Ringing)
                   \<or> (currentCallState s = Answered \<and> \<not> answerAlreadySet))
            in if \<not> shouldProcess then (NotWaiting, s)
               else if st = HaveLocalOffer then
                 (AwaitFirstSet, log (EngineSetRemoteDescription (pcid p) (ans_answer d)) s)
               else if st = Stable \<or> st = HaveRemotePranswer then
                 (AwaitDrain, processQueuedIceCandidates (ans_callId d) s)
               else
                 (AwaitRetrySet, log (EngineSetRemoteDescription (pcid p) (ans_answer d)) s))"

text \<open>
  The engine's verdict on a call made earlier reaches the connection: it resolves, or it
  rejects with a message. The verdict is the engine's answer in the signaling state the
  connection has when the call is worked off.
\<close>

definition settleOk ::
  "RTCPeerConnection \<Rightarrow> RTCSignalingState \<Rightarrow> RTCSessionDescriptionInit \<Rightarrow> service \<Rightarrow> service" where
  "settleOk p st d s = s\<lparr>pc := Some (p\<lparr>signalingState := st, remoteDescription := Some d\<rparr>)\<rparr>"

definition settleRejected :: "RTCPeerConnection \<Rightarrow> RTCSignalingState \<Rightarrow> service \<Rightarrow> service" where
  "settleRejected p st s = s\<lparr>pc := Some (p\<lparr>signalingState := st\<rparr>)\<rparr>"

definition onAnswer_resume :: "engine \<Rightarrow> answer_wait \<Rightarrow> AnswerData \<Rightarrow> service \<Rightarrow> service" where
  "onAnswer_resume E w d s =
     (case w of
        NotWaiting \<Rightarrow> s
      | AwaitDrain \<Rightarrow> answeredBackfill s
      | AwaitFirstSet \<Rightarrow>
          (case pc s of
             None \<Rightarrow> s
           | Some p \<Rightarrow>
               (case E (signalingState p) (ans_answer d) of
                  SrdOk st' \<Rightarrow>
                    answeredRestart
                      (processQueuedIceCandidates (ans_callId d)
                         (settleOk p st' (ans_answer d) s))
                | SrdThrows errorMsg st' \<Rightarrow>
                    let s1 = settleRejected p st' s
                    in if wrongStateMessage errorMsg then
                         (if st' = Stable \<or> st' = HaveRemotePranswer
                          then answeredBackfill
                                 (processQueuedIceCandidates (ans_callId d) s1)
                          else s1)
                       else s1))
      | AwaitRetrySet \<Rightarrow>
          (case pc s of
             None \<Rightarrow> s
           | Some p \<Rightarrow>
               (case E (signalingState p) (ans_answer d) of
                  SrdOk st' \<Rightarrow>
                    answeredBackfill
                      (processQueuedIceCandidates (ans_callId d)
                         (settleOk p st' (ans_answer d) s))
                | SrdThrows errorMsg st' \<Rightarrow> settleRejected p st' s)))"

text \<open>
  The listener \<^verbatim>\<open>onAnswer\<close> of \<^verbatim>\<open>waitForAnswer\<close>. When registered it holds the call id and
  the connection \<^verbatim>\<open>waitForAnswer\<close> was started with; it removes itself as soon as an event
  is for that call and that connection. \<open>wait_outcome\<close> is the fate of the promise of
  \<^verbatim>\<open>waitForAnswer\<close>: still pending, resolved, or rejected with a message.
\<close>

type_synonym answer_listener = "(string \<times> nat) option"

fun signalingStateName :: "RTCSignalingState \<Rightarrow> string" where
  "signalingStateName Stable = ''stable''"
| "signalingStateName HaveLocalOffer = ''have-local-offer''"
| "signalingStateName HaveRemoteOffer = ''have-remote-offer''"
| "signalingStateName HaveLocalPranswer = ''have-local-pranswer''"
| "signalingStateName HaveRemotePranswer = ''have-remote-pranswer''"
| "signalingStateName Closed = ''closed''"

datatype wait_outcome = StillWaiting | AnswerProcessed | WaitRejected string

datatype listener_wait = ListenerIdle | ListenerSettled wait_outcome | ListenerAwaitSet string

definition waitForAnswer_onAnswer_sync ::
  "answer_listener \<Rightarrow> AnswerData \<Rightarrow> service \<Rightarrow> answer_listener \<times> listener_wait \<times> service" where
  "waitForAnswer_onAnswer_sync w d s =
     (case w of
        None \<Rightarrow> (None, ListenerIdle, s)
      | Some (callId, currentPc) \<Rightarrow>
          (case pc s of
             None \<Rightarrow> (w, ListenerIdle, s)
           | Some p \<Rightarrow>
               if ans_callId d \<noteq> callId \<or> pcid p \<noteq> currentPc then (w, ListenerIdle, s)
               else if signalingState p = Stable \<or> signalingState p = HaveRemotePranswer then
                 (None, ListenerSettled AnswerProcessed,
                  if currentCallState s \<noteq> Answered then answeredBackfill s else s)
               else if signalingState p = HaveLocalOffer then
                 (None, ListenerAwaitSet callId,
                  log (EngineSetRemoteDescription (pcid p) (ans_answer d)) s)
               else
                 (None,
                  ListenerSettled
                    (WaitRejected
                       (''Wrong signaling state: '' @ signalingStateName (signalingState p))),
                  s)))"

definition waitForAnswer_onAnswer_resume ::
  "engine \<Rightarrow> string \<Rightarrow> AnswerData \<Rightarrow> service \<Rightarrow> wait_outcome \<times> service" where
  "waitForAnswer_onAnswer_resume E callId d s =
     (case pc s of
        None \<Rightarrow> (StillWaiting, s)
      | Some p \<Rightarrow>
          (case E (signalingState p) (ans_answer d) of
             SrdOk st' \<Rightarrow>
               (AnswerProcessed,
                answeredRestart
                  (processQueuedIceCandidates callId (settleOk p st' (ans_answer d) s)))
           | SrdThrows errorMsg st' \<Rightarrow>
               if wrongStateMessage errorMsg
               then (AnswerProcessed, answeredBackfill (settleRejected p st' s))
               else (WaitRejected errorMsg, settleRejected p st' s)))"

text \<open>
  One socket event \<^verbatim>\<open>answer\<close>: the first part of the global listener, the first part of
  the listener of \<^verbatim>\<open>waitForAnswer\<close>, then the rest of the global listener and last the
  rest of the other one. Within one event nothing replaces the connection, so that the
  branches \<open>None\<close> of the two resuming functions are never taken.
\<close>

definition socketAnswerEvent ::
  "engine \<Rightarrow> answer_listener \<Rightarrow> AnswerData \<Rightarrow> service
     \<Rightarrow> answer_listener \<times> wait_outcome \<times> service" where
  "socketAnswerEvent E w d s =
     (let g = onAnswer_sync d s;
          l = waitForAnswer_onAnswer_sync w d (snd g);
          s1 = onAnswer_resume E (fst g) d (snd (snd l))
      in case fst (snd l) of
           ListenerIdle \<Rightarrow> (fst l, StillWaiting, s1)
         | ListenerSettled outcome \<Rightarrow> (fst l, outcome, s1)
         | ListenerAwaitSet callId \<Rightarrow>
             (fst l, waitForAnswer_onAnswer_resume E callId d s1))"

text \<open>
  The block the handlers run when the engine has accepted the answer in
  \<open>have-local-offer\<close>: the queue is drained, the state is answered, the timer starts.
\<close>

definition answerApplied ::
  "RTCPeerConnection \<Rightarrow> RTCSignalingState \<Rightarrow> RTCSessionDescriptionInit \<Rightarrow> string
     \<Rightarrow> service \<Rightarrow> service" where
  "answerApplied p st a cid s =
     answeredRestart (processQueuedIceCandidates cid (srdResolved p st a s))"

section \<open>Call-state events and local actions\<close>

record CallStateData =
  csd_callId :: string
  csd_state :: string
  csd_direction :: string
  csd_peerDeviceId :: "string option"
  csd_callerName :: "string option"
  csd_fromLoyaltyId :: "string option"

text \<open>\<^verbatim>\<open>data.callerName || data.fromLoyaltyId || data.peerDeviceId || 'Incoming call'\<close>\<close>

definition incomingCallerName :: "CallStateData \<Rightarrow> string" where
  "incomingCallerName d =
     (if truthy_str (csd_callerName d) then str_of (csd_callerName d)
      else if truthy_str (csd_fromLoyaltyId d) then str_of (csd_fromLoyaltyId d)
      else if truthy_str (csd_peerDeviceId d) then str_of (csd_peerDeviceId d)
      else ''Incoming call'')"

text \<open>
  The socket handler of \<^verbatim>\<open>call-state\<close>. The browser notification the ringing branch may
  show is not part of the session and is left out.
\<close>

definition onCallState :: "CallStateData \<Rightarrow> service \<Rightarrow> service" where
  "onCallState d s =
     (if csd_state d = ''ringing'' \<and> csd_direction d = ''incoming'' then
        let s1 = s\<lparr>activeCallUUID := Some (csd_callId d), currentCallState := Ringing,
                   callerName := Some (incomingCallerName d)\<rparr>
        in callStateChanged Ringing (callerName s1) s1
      else if csd_state d = ''answered'' then
        if activeCallUUID s = Some (csd_callId d) \<or> \<not> truthy_str (activeCallUUID s) then
          answeredBackfill
            (if \<not> truthy_str (activeCallUUID s)
             then s\<lparr>activeCallUUID := Some (csd_callId d)\<rparr> else s)
        else s
      else if csd_state d = ''ended'' \<or> csd_state d = ''rejected'' then
        let s1 = s\<lparr>currentCallState := (if csd_state d = ''ended'' then Ended else Rejected)\<rparr>
        in endVoiceCall (callStateChanged (currentCallState s1) (callerName s1) s1)
      else s)"

text \<open>
  \<^verbatim>\<open>rejectCall\<close> up to the moment its promise resolves, and the callback it has scheduled
  with \<^verbatim>\<open>setTimeout(..., 2000)\<close>. A failure of the relay request is caught and only
  logged to the console.
\<close>

definition rejectCall :: "string \<Rightarrow> service \<Rightarrow> service" where
  "rejectCall callUUID s =
     (let s1 = s\<lparr>currentCallState := Rejected\<rparr>;
          s2 = callStateChanged Rejected (callerName s1) s1;
          s3 = (if truthy_str (currentDeviceId s2)
                then log (RelayEnd callUUID (Some ''rejected'')) s2 else s2);
          s4 = endVoiceCall s3
      in log (SetTimeout 2000) s4)"

definition rejectCall_timeout :: "service \<Rightarrow> service" where
  "rejectCall_timeout s =
     callStateChanged Idle None
       (s\<lparr>currentCallState := Idle, callerName := None, activeCallUUID := None\<rparr>)"

section \<open>Dialling\<close>







section \<open>The call handler of \<^verbatim>\<open>src/app/page.tsx\<close>\<close>








section \<open>Reading the log\<close>

text \<open>
  The calls one run of \<^verbatim>\<open>endVoiceCall\<close> makes, step by step: closing the connection,
  stopping the tracks of a stream, the relay's end notification, the two UI callbacks.
\<close>

definition closeCalls :: "RTCPeerConnection option \<Rightarrow> effect list" where
  "closeCalls c = (case c of None \<Rightarrow> [] | Some p \<Rightarrow> [EngineClose (pcid p)])"

definition stopCalls :: "nat list option \<Rightarrow> effect list" where
  "stopCalls st = (case st of None \<Rightarrow> [] | Some ts \<Rightarrow> map TrackStop ts)"

definition relayEndCalls :: "string option \<Rightarrow> string option \<Rightarrow> effect list" where
  "relayEndCalls uuid dev =
     (case uuid of
        None \<Rightarrow> []
      | Some u \<Rightarrow> if u \<noteq> [] \<and> truthy_str dev then [RelayEnd u None] else [])"

definition resetCallbacks :: "bool \<Rightarrow> bool \<Rightarrow> effect list" where
  "resetCallbacks onState onActive =
     (if onState then [UiCallStateChange Idle None] else [])
     @ (if onActive then [UiCallActiveChange False None] else [])"

fun isRelayEnd :: "effect \<Rightarrow> bool" where
  "isRelayEnd (RelayEnd _ _) = True"
| "isRelayEnd _ = False"

fun isSetRemoteDescription :: "effect \<Rightarrow> bool" where
  "isSetRemoteDescription (EngineSetRemoteDescription _ _) = True"
| "isSetRemoteDescription _ = False"

text \<open>How often \<^verbatim>\<open>setRemoteDescription\<close> has been invoked so far.\<close>

definition srdCount :: "service \<Rightarrow> nat" where
  "srdCount s = length (filter isSetRemoteDescription (effects s))"

text \<open>
  What a drain of call \<open>cid\<close> applies and what it leaves in the queue, read off the session
  it starts in.
\<close>

definition drainCalls :: "string \<Rightarrow> service \<Rightarrow> effect list" where
  "drainCalls cid s =
     (case pc s of
        None \<Rightarrow> []
      | Some p \<Rightarrow>
          if remoteDescription p = None then []
          else map (EngineAddIceCandidate (pcid p))
                 (List.map_filter ice_candidate
                    (filter (\<lambda>c. ice_callId c = cid) (queuedIceCandidates s))))"

definition drainedQueue :: "string \<Rightarrow> service \<Rightarrow> IceCandidateData list" where
  "drainedQueue cid s =
     (case pc s of
        None \<Rightarrow> queuedIceCandidates s
      | Some p \<Rightarrow>
          if remoteDescription p = None then queuedIceCandidates s
          else filter (\<lambda>c. ice_callId c \<noteq> cid) (queuedIceCandidates s))"

text \<open>The two UI callbacks of an answered call, as far as they are registered.\<close>

definition answeredCallbacks :: "service \<Rightarrow> nat option \<Rightarrow> effect list" where
  "answeredCallbacks s startedAt =
     (if onCallStateChange s then [UiCallStateChange Answered (callerName s)] else [])
     @ (if onCallActiveChange s then [UiCallActiveChange True startedAt] else [])"

definition backfilled :: "service \<Rightarrow> nat option" where
  "backfilled s =
     (if truthy_num (activeCallStartedAt s) then activeCallStartedAt s else Some (clock s))"

fun isFetch :: "poll_io \<Rightarrow> bool" where
  "isFetch (Fetch _) = True"
| "isFetch _ = False"

text \<open>\<open>k\<close> polls, one second before each.\<close>

definition polls :: "string \<Rightarrow> nat \<Rightarrow> poll_io list" where
  "polls cid k = concat (replicate k [Sleep 1000, Fetch cid])"

section \<open>Example sessions\<close>

text \<open>
  A browser-like engine: an answer (or provisional answer) is accepted after a local offer,
  an offer is accepted in the stable state, everything else is rejected the way Chrome
  words it.
\<close>

definition exampleEngine :: engine where
  "exampleEngine st d =
     (if st = HaveLocalOffer \<and> sd_type d = ''answer'' then SrdOk Stable
      else if st = HaveLocalOffer \<and> sd_type d = ''pranswer'' then SrdOk HaveRemotePranswer
      else if st = Stable \<and> sd_type d = ''offer'' then SrdOk HaveRemoteOffer
      else SrdThrows ''Failed to set remote answer sdp: Called in wrong state'' st)"

definition exampleOffer :: RTCSessionDescriptionInit where
  "exampleOffer = \<lparr>sd_type = ''offer'', sd_sdp = ''v=0 o=caller''\<rparr>"

definition exampleAnswer :: RTCSessionDescriptionInit where
  "exampleAnswer = \<lparr>sd_type = ''answer'', sd_sdp = ''v=0 o=callee''\<rparr>"

text \<open>A freshly initialised service with both callbacks registered and no call.\<close>

definition idleSession :: service where
  "idleSession =
     \<lparr>pc = None, localStream = None, remoteStream = None, activeCallUUID = None,
      currentLoyaltyId = Some ''L1'', currentDeviceId = Some ''dev1'',
      activeCallStartedAt = None, isVoipInitialized = True, currentCallState = Idle,
      callerName = None, isMuted = False, isSpeakerEnabled = False,
      queuedIceCandidates = [], onCallStateChange = True,
      onCallActiveChange = True, clock = 5000, effects = []\<rparr>"

text \<open>The caller after the offer went out: call \<open>c1\<close> to Bob, waiting for the answer.\<close>

definition callingSession :: service where
  "callingSession =
     idleSession
       \<lparr>pc := Some \<lparr>pcid = 7, signalingState = HaveLocalOffer, remoteDescription = None,
                    localDescription = Some exampleOffer\<rparr>,
        localStream := Some [1], activeCallUUID := Some ''c1'',
        currentCallState := Calling, callerName := Some ''Bob''\<rparr>"

text \<open>The same call once the answer has been applied and the timer runs since 4000.\<close>

definition answeredSession :: service where
  "answeredSession =
     callingSession
       \<lparr>pc := Some \<lparr>pcid = 7, signalingState = Stable,
                    remoteDescription = Some exampleAnswer,
                    localDescription = Some exampleOffer\<rparr>,
        remoteStream := Some [2], activeCallStartedAt := Some 4000,
        currentCallState := Answered\<rparr>"

text \<open>The callee while the phone rings: the caller's offer is set, Alice is shown.\<close>

definition ringingSession :: service where
  "ringingSession =
     idleSession
       \<lparr>pc := Some \<lparr>pcid = 8, signalingState = HaveRemoteOffer,
                    remoteDescription = Some exampleOffer, localDescription = None\<rparr>,
        localStream := Some [3], activeCallUUID := Some ''c2'',
        currentCallState := Ringing, callerName := Some ''Alice''\<rparr>"

definition exampleQueue :: "IceCandidateData list" where
  "exampleQueue =
     [\<lparr>ice_callId = ''c1'', ice_candidate = Some ''cand-a'', ice_fromDeviceId = ''dev2''\<rparr>,
      \<lparr>ice_callId = ''c0'', ice_candidate = Some ''cand-x'', ice_fromDeviceId = ''dev9''\<rparr>,
      \<lparr>ice_callId = ''c1'', ice_candidate = Some ''cand-b'', ice_fromDeviceId = ''dev2''\<rparr>]"

text \<open>
  A relay that has no answer at the first poll and has it from the second poll on, while
  nothing else happens to the session.
\<close>

definition exampleEnv :: "nat \<Rightarrow> poll_env" where
  "exampleEnv i =
     \<lparr>during_sleep = (\<lambda>s. s),
      response = (if i = 0 then RespOk None else RespOk (Some exampleAnswer)),
      during_fetch = (\<lambda>s. s)\<rparr>"

text \<open>The same relay, but the user hangs up while the second iteration sleeps.\<close>

definition hangupEnv :: "nat \<Rightarrow> poll_env" where
  "hangupEnv i =
     \<lparr>during_sleep = (if i = 1 then endCall else (\<lambda>s. s)),
      response = (if i = 0 then RespOk None else RespOk (Some exampleAnswer)),
      during_fetch = (\<lambda>s. s)\<rparr>"


text \<open>An engine that finds fault with every description and says so in its own words.\<close>

definition pickyEngine :: engine where
  "pickyEngine st d = SrdThrows ''Failed to parse SessionDescription'' st"

text \<open>The answer event of the example call, as the relay pushes it.\<close>

definition exampleAnswerEvent :: AnswerData where
  "exampleAnswerEvent =
     \<lparr>ans_callId = ''c1'', ans_answer = exampleAnswer, ans_fromDeviceId = ''dev2''\<rparr>"

text \<open>
  The call-state update that says the example call has been answered, and the session of
  the caller who got it while still waiting for the answer itself, four seconds before
  the answer arrives.
\<close>

definition exampleAnsweredUpdate :: CallStateData where
  "exampleAnsweredUpdate =
     \<lparr>csd_callId = ''c1'', csd_state = ''answered'', csd_direction = ''outgoing'',
      csd_peerDeviceId = None, csd_callerName = None, csd_fromLoyaltyId = None\<rparr>"

definition answeredEarlySession :: service where
  "answeredEarlySession = (onCallState exampleAnsweredUpdate callingSession)\<lparr>clock := 9000\<rparr>"

section \<open>Properties of the candidate queue\<close>

lemma addQueuedCandidates_eq:
  "pc s = Some p \<Longrightarrow> remoteDescription p \<noteq> None \<Longrightarrow>
   addQueuedCandidates ds s =
     s\<lparr>effects := effects s @ map (EngineAddIceCandidate (pcid p))
                                 (List.map_filter ice_candidate ds)\<rparr>"
proof (induction ds arbitrary: s)
  case Nil
  then show ?case by simp
next
  case (Cons d ds)
  show ?case
  proof (cases "ice_candidate d")
    case None
    with Cons show ?thesis by simp
  next
    case (Some c)
    have "pc (log (EngineAddIceCandidate (pcid p) c) s) = Some p"
      using Cons.prems by (simp add: log_def)
    from Cons.IH[OF this Cons.prems(2)] Some Cons.prems
    show ?thesis by (simp add: log_def)
  qed
qed

text \<open>A drain changes the queue and the log, and nothing else.\<close>

lemma processQueuedIceCandidates_eq:
  "processQueuedIceCandidates cid s =
     s\<lparr>queuedIceCandidates := drainedQueue cid s,
       effects := effects s @ drainCalls cid s\<rparr>"
proof (cases "pc s")
  case None
  then show ?thesis
    by (simp add: processQueuedIceCandidates_def drainedQueue_def drainCalls_def)
next
  case (Some p)
  show ?thesis
  proof (cases "remoteDescription p")
    case None
    with Some show ?thesis
      by (simp add: processQueuedIceCandidates_def drainedQueue_def drainCalls_def)
  next
    case (Some rd)
    note rd = this
    have q: "drainedQueue cid s = filter (\<lambda>c. ice_callId c \<noteq> cid) (queuedIceCandidates s)"
      using \<open>pc s = Some p\<close> rd by (simp add: drainedQueue_def)
    have c: "drainCalls cid s = map (EngineAddIceCandidate (pcid p))
                 (List.map_filter ice_candidate
                    (filter (\<lambda>c. ice_callId c = cid) (queuedIceCandidates s)))"
      using \<open>pc s = Some p\<close> rd by (simp add: drainCalls_def)
    show ?thesis
    proof (cases "filter (\<lambda>c. ice_callId c = cid) (queuedIceCandidates s) = []")
      case True
      then have keep: "filter (\<lambda>c. ice_callId c \<noteq> cid) (queuedIceCandidates s)
                   = queuedIceCandidates s"
        by (simp add: filter_empty_conv filter_id_conv)
      have "processQueuedIceCandidates cid s = s"
        using True \<open>pc s = Some p\<close> rd by (simp add: processQueuedIceCandidates_def)
      then show ?thesis by (simp add: q c True keep)
    next
      case False
      let ?s1 = "s\<lparr>queuedIceCandidates :=
                     filter (\<lambda>c. ice_callId c \<noteq> cid) (queuedIceCandidates s)\<rparr>"
      have pc1: "pc ?s1 = Some p" using \<open>pc s = Some p\<close> by simp
      have nn: "remoteDescription p \<noteq> None" using rd by simp
      have run: "processQueuedIceCandidates cid s =
           addQueuedCandidates (filter (\<lambda>c. ice_callId c = cid) (queuedIceCandidates s)) ?s1"
        using False \<open>pc s = Some p\<close> rd by (simp add: processQueuedIceCandidates_def)
      show ?thesis
        by (simp add: run addQueuedCandidates_eq[OF pc1 nn] q c)
    qed
  qed
qed

lemma filter_drained:
  "filter (\<lambda>c. ice_callId c = cid) (filter (\<lambda>c. ice_callId c \<noteq> cid) q) = []"
  by (induction q) auto

lemma filter_kept:
  "filter (\<lambda>c. ice_callId c \<noteq> cid) (filter (\<lambda>c. ice_callId c \<noteq> cid) q)
     = filter (\<lambda>c. ice_callId c \<noteq> cid) q"
  by (induction q) auto

text \<open>
  C3 (amended). Once the connection has a remote description, draining call \<open>cid\<close> hands
  the queued candidates of \<open>cid\<close> to \<^verbatim>\<open>addIceCandidate\<close> in arrival order, once each, and
  nothing else; they are gone from the queue, so that draining again does nothing. The
  entries of other calls are not discarded: they stay in the queue, in order.
\<close>

theorem drain_applies_matching_keeps_rest:
  assumes "pc s = Some p" and "remoteDescription p \<noteq> None"
  shows "effects (processQueuedIceCandidates cid s) =
           effects s @ map (EngineAddIceCandidate (pcid p))
             (List.map_filter ice_candidate
                (filter (\<lambda>c. ice_callId c = cid) (queuedIceCandidates s)))
         \<and> queuedIceCandidates (processQueuedIceCandidates cid s) =
             filter (\<lambda>c. ice_callId c \<noteq> cid) (queuedIceCandidates s)
         \<and> processQueuedIceCandidates cid (processQueuedIceCandidates cid s) =
             processQueuedIceCandidates cid s"
proof -
  have calls: "drainCalls cid s = map (EngineAddIceCandidate (pcid p))
             (List.map_filter ice_candidate
                (filter (\<lambda>c. ice_callId c = cid) (queuedIceCandidates s)))"
    and rest: "drainedQueue cid s = filter (\<lambda>c. ice_callId c \<noteq> cid) (queuedIceCandidates s)"
    using assms by (auto simp: drainCalls_def drainedQueue_def)
  let ?s1 = "processQueuedIceCandidates cid s"
  have conn: "pc ?s1 = Some p"
    and queue: "queuedIceCandidates ?s1
                  = filter (\<lambda>c. ice_callId c \<noteq> cid) (queuedIceCandidates s)"
    using assms(1) by (simp_all add: processQueuedIceCandidates_eq rest)
  have calls1: "drainCalls cid ?s1 = []"
    and rest1: "drainedQueue cid ?s1 = queuedIceCandidates ?s1"
    using conn assms(2)
    by (auto simp: drainCalls_def drainedQueue_def queue filter_drained filter_kept)
  have again: "processQueuedIceCandidates cid ?s1 = ?s1"
    by (subst processQueuedIceCandidates_eq[of cid ?s1]) (simp add: calls1 rest1)
  show ?thesis
    using again by (simp add: processQueuedIceCandidates_eq calls rest)
qed

theorem drain_applies_matching_keeps_rest_witness:
  "effects (processQueuedIceCandidates ''c1''
              (answeredSession\<lparr>queuedIceCandidates := exampleQueue\<rparr>)) =
     [EngineAddIceCandidate 7 ''cand-a'', EngineAddIceCandidate 7 ''cand-b'']"
  using drain_applies_matching_keeps_rest
    [of "answeredSession\<lparr>queuedIceCandidates := exampleQueue\<rparr>"
        "\<lparr>pcid = 7, signalingState = Stable, remoteDescription = Some exampleAnswer,
          localDescription = Some exampleOffer\<rparr>" "''c1''"]
  by (simp add: answeredSession_def callingSession_def idleSession_def exampleQueue_def)

text \<open>
  C3 as stated fails: with the candidates of \<open>c1\<close> and one stale entry of \<open>c0\<close> queued,
  draining \<open>c1\<close> leaves the stale entry in the queue.
\<close>

theorem drain_keeps_stale_entry:
  "queuedIceCandidates
     (processQueuedIceCandidates ''c1''
        (answeredSession\<lparr>queuedIceCandidates := exampleQueue\<rparr>)) =
   [\<lparr>ice_callId = ''c0'', ice_candidate = Some ''cand-x'', ice_fromDeviceId = ''dev9''\<rparr>]"
  by (simp add: processQueuedIceCandidates_def answeredSession_def callingSession_def
      idleSession_def exampleQueue_def log_def)

section \<open>Properties of teardown\<close>

lemma clearQueuedIceCandidates_eq:
  "clearQueuedIceCandidates s = s\<lparr>queuedIceCandidates := []\<rparr>"
  by (simp add: clearQueuedIceCandidates_def)

lemma closePeerConnection_eq:
  "closePeerConnection s = s\<lparr>pc := None, effects := effects s @ closeCalls (pc s)\<rparr>"
  by (cases "pc s") (simp_all add: closePeerConnection_def closeCalls_def log_def)

lemma stopLocalStream_eq:
  "stopLocalStream s =
     s\<lparr>localStream := None, effects := effects s @ stopCalls (localStream s)\<rparr>"
  by (cases "localStream s") (simp_all add: stopLocalStream_def stopCalls_def)

lemma stopRemoteStream_eq:
  "stopRemoteStream s =
     s\<lparr>remoteStream := None, effects := effects s @ stopCalls (remoteStream s)\<rparr>"
  by (cases "remoteStream s") (simp_all add: stopRemoteStream_def stopCalls_def)

lemma notifyRelayOfEnd_eq:
  "notifyRelayOfEnd s =
     s\<lparr>effects := effects s @ relayEndCalls (activeCallUUID s) (currentDeviceId s)\<rparr>"
  by (cases "activeCallUUID s") (simp_all add: notifyRelayOfEnd_def relayEndCalls_def log_def)

lemma resetCallbacks_eq:
  "callActiveChanged False None (callStateChanged Idle None s) =
     s\<lparr>effects := effects s @ resetCallbacks (onCallStateChange s) (onCallActiveChange s)\<rparr>"
  by (simp add: callActiveChanged_def callStateChanged_def resetCallbacks_def log_def)

text \<open>\<^verbatim>\<open>endVoiceCall\<close> in one step: what it resets and what it calls, in order.\<close>

lemma endVoiceCall_eq:
  "endVoiceCall s =
     s\<lparr>pc := None, localStream := None, remoteStream := None, activeCallUUID := None,
       activeCallStartedAt := None, currentCallState := Idle, callerName := None,
       queuedIceCandidates := [],
       effects := effects s @ closeCalls (pc s) @ stopCalls (localStream s)
                  @ stopCalls (remoteStream s)
                  @ relayEndCalls (activeCallUUID s) (currentDeviceId s)
                  @ resetCallbacks (onCallStateChange s) (onCallActiveChange s)\<rparr>"
  by (simp add: endVoiceCall_def clearQueuedIceCandidates_eq closePeerConnection_eq
      stopLocalStream_eq stopRemoteStream_eq notifyRelayOfEnd_eq resetCallbacks_eq
      resetCallVariables_def)

lemma isRelayEnd_closeCalls: "filter isRelayEnd (closeCalls c) = []"
  by (cases c) (simp_all add: closeCalls_def)

lemma isRelayEnd_stopCalls: "filter isRelayEnd (stopCalls st) = []"
  by (cases st) (simp_all add: stopCalls_def filter_empty_conv)

lemma isRelayEnd_resetCallbacks: "filter isRelayEnd (resetCallbacks a b) = []"
  by (simp add: resetCallbacks_def)

lemma relayEndCalls_length: "length (filter isRelayEnd (relayEndCalls u d)) \<le> 1"
  by (cases u) (simp_all add: relayEndCalls_def)

text \<open>
  C5. \<^verbatim>\<open>endCall\<close> in any session: the call state is idle afterwards and the service holds
  no connection and no stream; the connection it held has been closed and every track of
  the streams it held has been stopped; two calls in a row send at most one end
  notification to the relay, the second call sends none; and the second call changes
  nothing in the session (it only calls the UI callbacks again).
\<close>

theorem endCall_teardown_idempotent:
  "currentCallState (endCall s) = Idle
   \<and> pc (endCall s) = None \<and> localStream (endCall s) = None
   \<and> remoteStream (endCall s) = None
   \<and> (\<exists>before after. effects (endCall s)
         = before @ closeCalls (pc s) @ stopCalls (localStream s)
           @ stopCalls (remoteStream s) @ after)
   \<and> length (filter isRelayEnd (effects (endCall (endCall s))))
       \<le> length (filter isRelayEnd (effects s)) + 1
   \<and> filter isRelayEnd (effects (endCall (endCall s))) = filter isRelayEnd (effects (endCall s))
   \<and> (endCall (endCall s))\<lparr>effects := effects (endCall s)\<rparr> = endCall s"
proof -
  have once: "length (filter isRelayEnd (effects (endCall s)))
                \<le> length (filter isRelayEnd (effects s)) + 1"
    using relayEndCalls_length[of "activeCallUUID s" "currentDeviceId s"]
    by (simp add: endCall_def endVoiceCall_eq isRelayEnd_closeCalls isRelayEnd_stopCalls
        isRelayEnd_resetCallbacks)
  have again: "filter isRelayEnd (effects (endCall (endCall s)))
                 = filter isRelayEnd (effects (endCall s))"
    by (simp add: endCall_def endVoiceCall_eq isRelayEnd_closeCalls isRelayEnd_stopCalls
        isRelayEnd_resetCallbacks closeCalls_def stopCalls_def relayEndCalls_def)
  have same: "(endCall (endCall s))\<lparr>effects := effects (endCall s)\<rparr> = endCall s"
    by (simp add: endCall_def endVoiceCall_eq)
  have fields: "currentCallState (endCall s) = Idle \<and> pc (endCall s) = None
      \<and> localStream (endCall s) = None \<and> remoteStream (endCall s) = None"
    by (simp add: endCall_def endVoiceCall_eq)
  have calls: "\<exists>before after. effects (endCall s)
         = before @ closeCalls (pc s) @ stopCalls (localStream s)
           @ stopCalls (remoteStream s) @ after"
    by (intro exI[of _ "effects s"]
        exI[of _ "relayEndCalls (activeCallUUID s) (currentDeviceId s)
                  @ resetCallbacks (onCallStateChange s) (onCallActiveChange s)"])
       (simp add: endCall_def endVoiceCall_eq)
  from once again same fields calls show ?thesis by simp
qed

theorem endCall_teardown_idempotent_witness:
  "effects (endCall answeredSession) =
     [EngineClose 7, TrackStop 1, TrackStop 2, RelayEnd ''c1'' None,
      UiCallStateChange Idle None, UiCallActiveChange False None]
   \<and> effects (endCall (endCall answeredSession)) =
       effects (endCall answeredSession)
       @ [UiCallStateChange Idle None, UiCallActiveChange False None]
   \<and> length (filter isRelayEnd (effects (endCall (endCall answeredSession)))) \<le> 1"
  using endCall_teardown_idempotent [of answeredSession]
  by (simp add: endCall_def endVoiceCall_eq answeredSession_def callingSession_def
      idleSession_def closeCalls_def stopCalls_def relayEndCalls_def resetCallbacks_def
      truthy_str_def)

text \<open>
  C10. After \<^verbatim>\<open>endCall\<close>, in any session: \<^verbatim>\<open>getCallState\<close> reports idle with no caller
  name and no call id, \<^verbatim>\<open>getActiveCallInfo\<close> reports an inactive call with no start time,
  the candidate queue is empty, and the registered UI callbacks have been called last, with
  \<open>(idle, null)\<close> and \<open>(false, null)\<close>.
\<close>

theorem endCall_resets_session:
  "getCallState (endCall s)
     = \<lparr>cs_state = Idle, cs_callerName = None, cs_isMuted = isMuted s,
        cs_isSpeakerEnabled = isSpeakerEnabled s, cs_callUUID = None\<rparr>
   \<and> getActiveCallInfo (endCall s) = \<lparr>ai_isActive = False, ai_startedAt = None\<rparr>
   \<and> queuedIceCandidates (endCall s) = []
   \<and> (onCallStateChange s \<and> onCallActiveChange s \<longrightarrow>
        (\<exists>calls. effects (endCall s)
           = effects s @ calls @ [UiCallStateChange Idle None, UiCallActiveChange False None]))"
proof -
  have "onCallStateChange s \<and> onCallActiveChange s \<longrightarrow>
        (\<exists>calls. effects (endCall s)
           = effects s @ calls @ [UiCallStateChange Idle None, UiCallActiveChange False None])"
    by (auto simp: endCall_def endVoiceCall_eq resetCallbacks_def
        intro!: exI[of _ "closeCalls (pc s) @ stopCalls (localStream s)
                  @ stopCalls (remoteStream s)
                  @ relayEndCalls (activeCallUUID s) (currentDeviceId s)"])
  then show ?thesis
    by (simp add: endCall_def endVoiceCall_eq getCallState_def getActiveCallInfo_def)
qed

theorem endCall_resets_session_witness:
  "onCallStateChange answeredSession \<and> onCallActiveChange answeredSession
   \<and> getCallState (endCall answeredSession)
       = \<lparr>cs_state = Idle, cs_callerName = None, cs_isMuted = False,
          cs_isSpeakerEnabled = False, cs_callUUID = None\<rparr>
   \<and> (\<exists>calls. effects (endCall answeredSession)
         = effects answeredSession @ calls
           @ [UiCallStateChange Idle None, UiCallActiveChange False None])"
proof -
  have registered: "onCallStateChange answeredSession \<and> onCallActiveChange answeredSession"
    and sound: "isMuted answeredSession = False" "isSpeakerEnabled answeredSession = False"
    by (simp_all add: answeredSession_def callingSession_def idleSession_def)
  with endCall_resets_session [of answeredSession] show ?thesis by simp
qed

section \<open>Properties of answer handling\<close>

lemma answeredRestart_eq:
  "answeredRestart s =
     s\<lparr>currentCallState := Answered, activeCallStartedAt := Some (clock s),
       effects := effects s @ answeredCallbacks s (Some (clock s))\<rparr>"
  by (simp add: answeredRestart_def Let_def callActiveChanged_def callStateChanged_def
      answeredCallbacks_def log_def)

lemma answeredBackfill_eq:
  "answeredBackfill s =
     s\<lparr>currentCallState := Answered, activeCallStartedAt := backfilled s,
       effects := effects s @ answeredCallbacks s (backfilled s)\<rparr>"
  by (simp add: answeredBackfill_def Let_def callActiveChanged_def callStateChanged_def
      answeredCallbacks_def backfilled_def log_def)

lemma isSRD_drainCalls: "filter isSetRemoteDescription (drainCalls cid s) = []"
  by (auto simp: drainCalls_def filter_empty_conv split: option.splits)

lemma isSRD_answeredCallbacks: "filter isSetRemoteDescription (answeredCallbacks s t) = []"
  by (simp add: answeredCallbacks_def)

text \<open>The session after the first delivery of an accepted answer, on either transport.\<close>

lemma answer_applied:
  fixes cid :: string
  assumes "s1 = answeredRestart (processQueuedIceCandidates cid (srdResolved p st' a s))"
  shows "pc s1 = Some (p\<lparr>signalingState := st', remoteDescription := Some a\<rparr>)"
    and "currentCallState s1 = Answered"
    and "activeCallStartedAt s1 = Some (clock s)"
    and "activeCallUUID s1 = activeCallUUID s"
    and "clock s1 = clock s"
    and "srdCount s1 = srdCount s + 1"
  unfolding assms
  by (simp_all add: answeredRestart_eq processQueuedIceCandidates_eq srdResolved_def log_def
      srdCount_def isSRD_drainCalls isSRD_answeredCallbacks)

lemma onAnswer_split:
  "onAnswer_resume E (fst (onAnswer_sync d s)) d (snd (onAnswer_sync d s)) = onAnswer E d s"
proof (cases "pc s")
  case None
  then show ?thesis by (simp add: onAnswer_sync_def onAnswer_resume_def onAnswer_def)
next
  case (Some p)
  then show ?thesis
    by (cases "signalingState p"; cases "E (signalingState p) (ans_answer d)")
       (simp_all add: onAnswer_sync_def onAnswer_resume_def onAnswer_def Let_def log_def
          srdResolved_def srdRejected_def settleOk_def settleRejected_def
          processQueuedIceCandidates_eq)
qed

text \<open>With no second listener, a push event is one run of the global handler.\<close>

lemma socketAnswerEvent_global_only:
  "socketAnswerEvent E None d s = (None, StillWaiting, onAnswer E d s)"
  by (simp add: socketAnswerEvent_def Let_def waitForAnswer_onAnswer_sync_def onAnswer_split)

text \<open>
  Once the call is answered and the connection has the answer, a push event changes
  nothing, whoever listens.
\<close>

lemma push_on_settled:
  assumes "pc s = Some q"
    and "signalingState q = Stable \<or> signalingState q = HaveRemotePranswer"
    and "activeCallUUID s = Some (ans_callId d)" and "currentCallState s = Answered"
  shows "snd (snd (socketAnswerEvent E w d s)) = s"
proof -
  have g: "onAnswer_sync d s = (NotWaiting, s)"
    using assms by (auto simp: onAnswer_sync_def Let_def)
  have l: "snd (snd (waitForAnswer_onAnswer_sync w d s)) = s
           \<and> (\<forall>c. fst (snd (waitForAnswer_onAnswer_sync w d s)) \<noteq> ListenerAwaitSet c)"
    using assms by (auto simp: waitForAnswer_onAnswer_sync_def split: option.splits)
  then show ?thesis
    by (cases "fst (snd (waitForAnswer_onAnswer_sync w d s))")
       (simp_all add: socketAnswerEvent_def Let_def g onAnswer_resume_def)
qed

lemma answerApplied_eq:
  "answerApplied p st a cid s =
     s\<lparr>pc := Some (p\<lparr>signalingState := st, remoteDescription := Some a\<rparr>),
       queuedIceCandidates := drainedQueue cid (srdResolved p st a s),
       currentCallState := Answered, activeCallStartedAt := Some (clock s),
       effects := effects s @ [EngineSetRemoteDescription (pcid p) a]
                  @ drainCalls cid (srdResolved p st a s)
                  @ answeredCallbacks s (Some (clock s))\<rparr>"
  by (simp add: answerApplied_def answeredRestart_eq processQueuedIceCandidates_eq
      srdResolved_def log_def answeredCallbacks_def)

text \<open>
  The session after the first parts of both listeners and the rest of the global one,
  when both listeners made their call in \<open>have-local-offer\<close> and the engine accepted the
  first: the session of \<open>answerApplied\<close>, with one more call in the log.
\<close>

lemma both_listeners_called:
  assumes conn: "pc s = Some p" and offer: "signalingState p = HaveLocalOffer"
    and active: "activeCallUUID s = Some (ans_callId d)"
    and live: "currentCallState s = Calling \<or> currentCallState s = Ringing
               \<or> currentCallState s = Answered"
    and accepts: "E HaveLocalOffer (ans_answer d) = SrdOk st'"
  shows "socketAnswerEvent E (Some (ans_callId d, pcid p)) d s
           = (None, waitForAnswer_onAnswer_resume E (ans_callId d) d
                      ((answerApplied p st' (ans_answer d) (ans_callId d) s)
                         \<lparr>effects := effects s
                            @ [EngineSetRemoteDescription (pcid p) (ans_answer d),
                               EngineSetRemoteDescription (pcid p) (ans_answer d)]
                            @ drainCalls (ans_callId d)
                                (srdResolved p st' (ans_answer d) s)
                            @ answeredCallbacks s (Some (clock s))\<rparr>))"
proof -
  let ?call = "EngineSetRemoteDescription (pcid p) (ans_answer d)"
  have g: "onAnswer_sync d s = (AwaitFirstSet, log ?call s)"
    using conn offer active live by (auto simp: onAnswer_sync_def Let_def)
  have l: "waitForAnswer_onAnswer_sync (Some (ans_callId d, pcid p)) d (log ?call s)
             = (None, ListenerAwaitSet (ans_callId d), log ?call (log ?call s))"
    using conn offer by (simp add: waitForAnswer_onAnswer_sync_def log_def)
  have r: "onAnswer_resume E AwaitFirstSet d (log ?call (log ?call s))
             = (answerApplied p st' (ans_answer d) (ans_callId d) s)
                 \<lparr>effects := effects s @ [?call, ?call]
                    @ drainCalls (ans_callId d) (srdResolved p st' (ans_answer d) s)
                    @ answeredCallbacks s (Some (clock s))\<rparr>"
    using conn offer accepts
    by (simp add: onAnswer_resume_def log_def settleOk_def answerApplied_eq
        answeredRestart_eq processQueuedIceCandidates_eq answeredCallbacks_def
        srdResolved_def drainCalls_def drainedQueue_def)
  show ?thesis
    by (simp add: socketAnswerEvent_def Let_def g l r)
qed

lemma listener_resume_quiet:
  "srdCount (snd (waitForAnswer_onAnswer_resume E c d s)) = srdCount s"
  by (auto simp: waitForAnswer_onAnswer_resume_def srdCount_def settleOk_def settleRejected_def
      answeredRestart_eq answeredBackfill_eq processQueuedIceCandidates_eq
      isSRD_drainCalls isSRD_answeredCallbacks split: option.splits srd_result.splits)

lemma listener_resume_timer:
  "activeCallStartedAt s = Some (clock s) \<Longrightarrow>
   activeCallStartedAt (snd (waitForAnswer_onAnswer_resume E c d s)) = Some (clock s)"
  by (auto simp: waitForAnswer_onAnswer_resume_def settleOk_def settleRejected_def
      answeredRestart_eq answeredBackfill_eq processQueuedIceCandidates_eq backfilled_def
      split: option.splits srd_result.splits)

lemma chrome_wording:
  "wrongStateMessage ''Failed to set remote answer sdp: Called in wrong state''"
  by code_simp

lemma other_wording: "\<not> wrongStateMessage ''Failed to parse SessionDescription''"
  by code_simp


lemma listener_resume_absorbed:
  assumes "pc t = Some q"
    and "E (signalingState q) (ans_answer d) = SrdThrows m (signalingState q)"
    and "wrongStateMessage m"
  shows "waitForAnswer_onAnswer_resume E c d t = (AnswerProcessed, answeredBackfill t)"
proof -
  have "settleRejected q (signalingState q) t = t"
    using assms(1) by (simp add: settleRejected_def)
  then show ?thesis
    using assms by (simp add: waitForAnswer_onAnswer_resume_def)
qed

lemma poll_on_settled:
  assumes "pc t = Some q"
    and "signalingState q = Stable \<or> signalingState q = HaveRemotePranswer"
    and "sd_sdp a \<noteq> []"
  shows "pollAnswer E c (pcid q) (RespOk (Some a)) t = (True, answeredBackfill t)"
  using assms by (auto simp: pollAnswer_def Let_def)

text \<open>
  C1 (amended). An outbound call waits for its answer (the connection has its local offer,
  the call is active, the state is calling or ringing), and the engine accepts the answer in
  that phase, which takes the connection to \<open>stable\<close> or \<open>have-remote-pranswer\<close>. The
  same answer is delivered by a push event and by one poll of the HTTP fallback, one after
  the other. In either order the first delivery sets the remote description and moves the
  call state to answered, and the second delivery does not invoke
  \<^verbatim>\<open>setRemoteDescription\<close>: a push event then leaves the session as it is, whoever
  listens; a poll then leaves the session as it is apart from calling the UI callbacks
  again, and ends the polling. \<^verbatim>\<open>setRemoteDescription\<close> is invoked once when the poll
  comes first, and when only the global listener hears the push event. When the listener of
  \<^verbatim>\<open>waitForAnswer\<close> hears the push event too, the first push event invokes it twice, once
  from each listener; if the engine rejects the second call as a call in the wrong state,
  the rejection is absorbed, \<^verbatim>\<open>waitForAnswer\<close> resolves, and the session is the same
  as after a single call, apart from the log.
\<close>

theorem answer_set_by_first_delivery:
  assumes conn: "pc s = Some p" and offer: "signalingState p = HaveLocalOffer"
    and active: "activeCallUUID s = Some cid" and cid: "cid \<noteq> []"
    and waiting: "currentCallState s = Calling \<or> currentCallState s = Ringing"
    and msg: "ans_callId d = cid" "ans_answer d = a" and sdp: "sd_sdp a \<noteq> []"
    and accepts: "E HaveLocalOffer a = SrdOk st'"
    and set: "st' = Stable \<or> st' = HaveRemotePranswer"
  shows "\<not> callCeased (pcid p) s
       \<and> pollAnswer E cid (pcid p) (RespOk (Some a)) s = (True, answerApplied p st' a cid s)
       \<and> socketAnswerEvent E None d s = (None, StillWaiting, answerApplied p st' a cid s)
       \<and> srdCount (answerApplied p st' a cid s) = srdCount s + 1
       \<and> currentCallState (answerApplied p st' a cid s) = Answered
       \<and> pc (answerApplied p st' a cid s)
           = Some (p\<lparr>signalingState := st', remoteDescription := Some a\<rparr>)
       \<and> snd (snd (socketAnswerEvent E w d (answerApplied p st' a cid s)))
           = answerApplied p st' a cid s
       \<and> \<not> callCeased (pcid p) (answerApplied p st' a cid s)
       \<and> pollAnswer E cid (pcid p) (RespOk (Some a)) (answerApplied p st' a cid s)
           = (True, (answerApplied p st' a cid s)
                      \<lparr>effects := effects (answerApplied p st' a cid s)
                           @ answeredCallbacks s (Some (clock s))\<rparr>)
       \<and> srdCount (snd (snd (socketAnswerEvent E (Some (cid, pcid p)) d s))) = srdCount s + 2
       \<and> (E st' a = SrdThrows m st' \<and> wrongStateMessage m \<longrightarrow>
            fst (socketAnswerEvent E (Some (cid, pcid p)) d s) = None
            \<and> fst (snd (socketAnswerEvent E (Some (cid, pcid p)) d s)) = AnswerProcessed
            \<and> (snd (snd (socketAnswerEvent E (Some (cid, pcid p)) d s)))
                  \<lparr>effects := effects (answerApplied p st' a cid s)\<rparr>
                = answerApplied p st' a cid s
            \<and> fst (pollAnswer E cid (pcid p) (RespOk (Some a))
                      (snd (snd (socketAnswerEvent E (Some (cid, pcid p)) d s))))
            \<and> srdCount (snd (pollAnswer E cid (pcid p) (RespOk (Some a))
                      (snd (snd (socketAnswerEvent E (Some (cid, pcid p)) d s)))))
                = srdCount s + 2
            \<and> (snd (pollAnswer E cid (pcid p) (RespOk (Some a))
                      (snd (snd (socketAnswerEvent E (Some (cid, pcid p)) d s)))))
                  \<lparr>effects := effects (answerApplied p st' a cid s)\<rparr>
                = answerApplied p st' a cid s)"
proof -
  let ?s1 = "answerApplied p st' a cid s"
  let ?p1 = "p\<lparr>signalingState := st', remoteDescription := Some a\<rparr>"
  note s1 = answer_applied[of ?s1 cid p st' a s, OF answerApplied_def]
  have live: "\<not> callCeased (pcid p) s" "\<not> callCeased (pcid p) ?s1"
    using conn active cid s1(1,4) by (simp_all add: callCeased_def truthy_str_def)
  have poll: "pollAnswer E cid (pcid p) (RespOk (Some a)) s = (True, ?s1)"
    using conn offer sdp accepts by (simp add: pollAnswer_def answerApplied_def)
  have "onAnswer E d s = ?s1"
    using conn offer active waiting msg accepts
    by (auto simp: onAnswer_def answerApplied_def)
  then have push: "socketAnswerEvent E None d s = (None, StillWaiting, ?s1)"
    by (simp add: socketAnswerEvent_global_only)
  have push2: "snd (snd (socketAnswerEvent E w d ?s1)) = ?s1"
    using push_on_settled[of ?s1 ?p1 d E w] s1(1,2,4) active msg set by simp
  have filled: "backfilled ?s1 = Some (clock s)"
    using s1(3,5) by (simp add: backfilled_def)
  have cb: "answeredCallbacks ?s1 t = answeredCallbacks s t" for t
    by (simp add: answerApplied_eq answeredCallbacks_def)
  have again: "answeredBackfill ?s1
                 = ?s1\<lparr>effects := effects ?s1 @ answeredCallbacks s (Some (clock s))\<rparr>"
    using s1(2,3) by (simp add: answeredBackfill_eq filled cb)
  have poll2: "pollAnswer E cid (pcid p) (RespOk (Some a)) ?s1
                 = (True, ?s1\<lparr>effects := effects ?s1 @ answeredCallbacks s (Some (clock s))\<rparr>)"
    using s1(1) sdp set by (auto simp: pollAnswer_def again)
  let ?t0 = "?s1\<lparr>effects := effects s
                 @ [EngineSetRemoteDescription (pcid p) a, EngineSetRemoteDescription (pcid p) a]
                 @ drainCalls cid (srdResolved p st' a s)
                 @ answeredCallbacks s (Some (clock s))\<rparr>"
  have both: "socketAnswerEvent E (Some (cid, pcid p)) d s
                = (None, waitForAnswer_onAnswer_resume E cid d ?t0)"
  proof -
    have live3: "currentCallState s = Calling \<or> currentCallState s = Ringing
                 \<or> currentCallState s = Answered"
      using waiting by auto
    show ?thesis
      by (rule both_listeners_called[of s p d E st', unfolded msg,
            OF conn offer active live3 accepts])
  qed
  have t0_count: "srdCount ?t0 = srdCount s + 2"
    by (simp add: srdCount_def isSRD_drainCalls isSRD_answeredCallbacks)
  have twice: "srdCount (snd (snd (socketAnswerEvent E (Some (cid, pcid p)) d s)))
                 = srdCount s + 2"
    unfolding both snd_conv listener_resume_quiet by (rule t0_count)
  have absorbed: "fst (socketAnswerEvent E (Some (cid, pcid p)) d s) = None
            \<and> fst (snd (socketAnswerEvent E (Some (cid, pcid p)) d s)) = AnswerProcessed
            \<and> (snd (snd (socketAnswerEvent E (Some (cid, pcid p)) d s)))
                  \<lparr>effects := effects ?s1\<rparr> = ?s1
            \<and> fst (pollAnswer E cid (pcid p) (RespOk (Some a))
                      (snd (snd (socketAnswerEvent E (Some (cid, pcid p)) d s))))
            \<and> srdCount (snd (pollAnswer E cid (pcid p) (RespOk (Some a))
                      (snd (snd (socketAnswerEvent E (Some (cid, pcid p)) d s)))))
                = srdCount s + 2
            \<and> (snd (pollAnswer E cid (pcid p) (RespOk (Some a))
                      (snd (snd (socketAnswerEvent E (Some (cid, pcid p)) d s)))))
                  \<lparr>effects := effects ?s1\<rparr> = ?s1"
    if rejects: "E st' a = SrdThrows m st'" and worded: "wrongStateMessage m"
  proof -
    let ?t1 = "?t0\<lparr>effects := effects ?t0 @ answeredCallbacks s (Some (clock s))\<rparr>"
    have t0_pc: "pc ?t0 = Some ?p1" using s1(1) by simp
    have t0_fill: "answeredBackfill ?t0 = ?t1"
      using s1(2,3,5)
      by (simp add: answeredBackfill_eq backfilled_def answeredCallbacks_def answerApplied_eq)
    have "E (signalingState ?p1) (ans_answer d) = SrdThrows m (signalingState ?p1)"
      using rejects msg by simp
    from listener_resume_absorbed[of ?t0 ?p1 E d m cid, OF t0_pc this worded]
    have resume: "waitForAnswer_onAnswer_resume E cid d ?t0 = (AnswerProcessed, ?t1)"
      unfolding t0_fill .
    have event: "socketAnswerEvent E (Some (cid, pcid p)) d s = (None, AnswerProcessed, ?t1)"
      by (simp only: both resume)
    have t1_same: "?t1\<lparr>effects := effects ?s1\<rparr> = ?s1" by simp
    have t1_pc: "pc ?t1 = Some ?p1" using s1(1) by simp
    have t1_fill: "answeredBackfill ?t1
                     = ?t1\<lparr>effects := effects ?t1 @ answeredCallbacks s (Some (clock s))\<rparr>"
      using s1(2,3,5)
      by (simp add: answeredBackfill_eq backfilled_def answeredCallbacks_def answerApplied_eq)
    have settled: "signalingState ?p1 = Stable \<or> signalingState ?p1 = HaveRemotePranswer"
      using set by simp
    from poll_on_settled[of ?t1 ?p1 a E cid, OF t1_pc settled sdp]
    have poll3: "pollAnswer E cid (pcid p) (RespOk (Some a)) ?t1
                   = (True, ?t1\<lparr>effects := effects ?t1 @ answeredCallbacks s (Some (clock s))\<rparr>)"
      unfolding t1_fill by simp
    have count3: "srdCount (?t1\<lparr>effects := effects ?t1 @ answeredCallbacks s (Some (clock s))\<rparr>)
                    = srdCount s + 2"
      by (simp add: srdCount_def isSRD_drainCalls isSRD_answeredCallbacks)
    have t2_same: "?t1\<lparr>effects := effects ?t1 @ answeredCallbacks s (Some (clock s)),
                        effects := effects ?s1\<rparr> = ?s1"
      by simp
    show ?thesis
      unfolding event fst_conv snd_conv poll3
      using count3 t1_same t2_same by simp
  qed
  from live poll push s1(1,2,6) push2 poll2 twice absorbed show ?thesis
    by simp
qed

theorem answer_set_by_first_delivery_witness:
  "srdCount (snd (snd (socketAnswerEvent exampleEngine (Some (''c1'', 7)) exampleAnswerEvent
                         (snd (pollAnswer exampleEngine ''c1'' 7 (RespOk (Some exampleAnswer))
                                 callingSession))))) = 1
   \<and> srdCount (snd (pollAnswer exampleEngine ''c1'' 7 (RespOk (Some exampleAnswer))
                      (snd (snd (socketAnswerEvent exampleEngine None exampleAnswerEvent
                                   callingSession))))) = 1
   \<and> srdCount (snd (pollAnswer exampleEngine ''c1'' 7 (RespOk (Some exampleAnswer))
                      (snd (snd (socketAnswerEvent exampleEngine (Some (''c1'', 7))
                                   exampleAnswerEvent callingSession))))) = 2"
proof -
  let ?p = "\<lparr>pcid = 7, signalingState = HaveLocalOffer, remoteDescription = None,
             localDescription = Some exampleOffer\<rparr>"
  let ?s1 = "answerApplied ?p Stable exampleAnswer ''c1'' callingSession"
  have none_yet: "srdCount callingSession = 0"
    by (simp add: srdCount_def callingSession_def idleSession_def)
  have conn: "pc callingSession = Some ?p"
    and offer: "signalingState ?p = HaveLocalOffer"
    and active: "activeCallUUID callingSession = Some ''c1''"
    and cid: "''c1'' \<noteq> []"
    and waiting: "currentCallState callingSession = Calling
                  \<or> currentCallState callingSession = Ringing"
    and msg: "ans_callId exampleAnswerEvent = ''c1''"
             "ans_answer exampleAnswerEvent = exampleAnswer"
    by (simp_all add: callingSession_def idleSession_def exampleAnswerEvent_def)
  have sdp: "sd_sdp exampleAnswer \<noteq> []"
    and accepts: "exampleEngine HaveLocalOffer exampleAnswer = SrdOk Stable"
    and set: "Stable = Stable \<or> Stable = HaveRemotePranswer"
    and rejects: "exampleEngine Stable exampleAnswer
                    = SrdThrows ''Failed to set remote answer sdp: Called in wrong state'' Stable"
    by (simp_all add: exampleEngine_def exampleAnswer_def)
  note first = answer_set_by_first_delivery
    [of callingSession ?p "''c1''" exampleAnswerEvent exampleAnswer exampleEngine Stable
        "Some (''c1'', 7)" "''Failed to set remote answer sdp: Called in wrong state''",
     OF conn offer active cid waiting msg sdp accepts set]
  have poll_first: "pollAnswer exampleEngine ''c1'' 7 (RespOk (Some exampleAnswer)) callingSession
                      = (True, ?s1)"
    and push_only: "socketAnswerEvent exampleEngine None exampleAnswerEvent callingSession
                      = (None, StillWaiting, ?s1)"
    and applied: "srdCount ?s1 = srdCount callingSession + 1"
    and push_second: "snd (snd (socketAnswerEvent exampleEngine (Some (''c1'', 7))
                                  exampleAnswerEvent ?s1)) = ?s1"
    and poll_second: "pollAnswer exampleEngine ''c1'' 7 (RespOk (Some exampleAnswer)) ?s1
           = (True, ?s1\<lparr>effects := effects ?s1
                          @ answeredCallbacks callingSession (Some (clock callingSession))\<rparr>)"
    using first by simp_all
  have both: "srdCount (snd (pollAnswer exampleEngine ''c1'' 7 (RespOk (Some exampleAnswer))
                      (snd (snd (socketAnswerEvent exampleEngine (Some (''c1'', 7))
                                   exampleAnswerEvent callingSession)))))
                = srdCount callingSession + 2"
    using first rejects chrome_wording by simp
  have "srdCount (?s1\<lparr>effects := effects ?s1
                          @ answeredCallbacks callingSession (Some (clock callingSession))\<rparr>)
          = srdCount ?s1"
    by (simp add: srdCount_def isSRD_answeredCallbacks)
  with poll_first push_only applied push_second poll_second both none_yet
  show ?thesis by simp
qed

text \<open>
  C1 as stated fails, twice over. While \<^verbatim>\<open>waitForAnswer\<close> listens, one push event for
  the waiting call makes both listeners invoke \<^verbatim>\<open>setRemoteDescription\<close>. And when the
  engine rejects the answer in its own words, the push handler and the poll, in either
  order, invoke it once each and the call is still calling.
\<close>

theorem answer_delivery_invokes_twice:
  "srdCount callingSession = 0
   \<and> srdCount (snd (snd (socketAnswerEvent exampleEngine (Some (''c1'', 7)) exampleAnswerEvent
                           callingSession))) = 2
   \<and> srdCount (snd (pollAnswer pickyEngine ''c1'' 7 (RespOk (Some exampleAnswer))
                      (onAnswer pickyEngine exampleAnswerEvent callingSession))) = 2
   \<and> currentCallState (snd (pollAnswer pickyEngine ''c1'' 7 (RespOk (Some exampleAnswer))
                      (onAnswer pickyEngine exampleAnswerEvent callingSession))) = Calling
   \<and> srdCount (onAnswer pickyEngine exampleAnswerEvent
                 (snd (pollAnswer pickyEngine ''c1'' 7 (RespOk (Some exampleAnswer))
                         callingSession))) = 2
   \<and> currentCallState (onAnswer pickyEngine exampleAnswerEvent
                 (snd (pollAnswer pickyEngine ''c1'' 7 (RespOk (Some exampleAnswer))
                         callingSession))) = Calling"
proof -
  have both: "srdCount (snd (snd (socketAnswerEvent exampleEngine (Some (''c1'', 7))
                                     exampleAnswerEvent callingSession))) = 2"
    by (simp add: socketAnswerEvent_def Let_def onAnswer_sync_def onAnswer_resume_def
        waitForAnswer_onAnswer_sync_def waitForAnswer_onAnswer_resume_def settleOk_def
        settleRejected_def log_def chrome_wording answeredRestart_eq answeredBackfill_eq
        processQueuedIceCandidates_eq srdCount_def isSRD_drainCalls isSRD_answeredCallbacks
        exampleEngine_def exampleAnswerEvent_def exampleAnswer_def callingSession_def
        idleSession_def)
  have push: "onAnswer pickyEngine exampleAnswerEvent callingSession
                = srdRejected \<lparr>pcid = 7, signalingState = HaveLocalOffer,
                                remoteDescription = None,
                                localDescription = Some exampleOffer\<rparr>
                    HaveLocalOffer exampleAnswer callingSession"
    by (simp add: onAnswer_def Let_def pickyEngine_def other_wording exampleAnswerEvent_def
        callingSession_def idleSession_def)
  have poll: "pollAnswer pickyEngine ''c1'' 7 (RespOk (Some exampleAnswer)) callingSession
                = (False, srdRejected \<lparr>pcid = 7, signalingState = HaveLocalOffer,
                                        remoteDescription = None,
                                        localDescription = Some exampleOffer\<rparr>
                            HaveLocalOffer exampleAnswer callingSession)"
    by (simp add: pollAnswer_def Let_def pickyEngine_def other_wording exampleAnswer_def
        callingSession_def idleSession_def)
  have same: "srdRejected \<lparr>pcid = 7, signalingState = HaveLocalOffer,
                            remoteDescription = None,
                            localDescription = Some exampleOffer\<rparr>
                HaveLocalOffer exampleAnswer callingSession
              = callingSession\<lparr>effects := [EngineSetRemoteDescription 7 exampleAnswer]\<rparr>"
    by (simp add: srdRejected_def log_def callingSession_def idleSession_def)
  have push2: "onAnswer pickyEngine exampleAnswerEvent
                 (callingSession\<lparr>effects := [EngineSetRemoteDescription 7 exampleAnswer]\<rparr>)
               = callingSession\<lparr>effects := [EngineSetRemoteDescription 7 exampleAnswer,
                                              EngineSetRemoteDescription 7 exampleAnswer]\<rparr>"
    by (simp add: onAnswer_def Let_def pickyEngine_def other_wording exampleAnswerEvent_def
        srdRejected_def log_def callingSession_def idleSession_def)
  have poll2: "pollAnswer pickyEngine ''c1'' 7 (RespOk (Some exampleAnswer))
                 (callingSession\<lparr>effects := [EngineSetRemoteDescription 7 exampleAnswer]\<rparr>)
               = (False, callingSession\<lparr>effects := [EngineSetRemoteDescription 7 exampleAnswer,
                                              EngineSetRemoteDescription 7 exampleAnswer]\<rparr>)"
    by (simp add: pollAnswer_def Let_def pickyEngine_def other_wording exampleAnswer_def
        srdRejected_def log_def callingSession_def idleSession_def)
  have calling: "currentCallState callingSession = Calling" "srdCount callingSession = 0"
    by (simp_all add: srdCount_def callingSession_def idleSession_def)
  show ?thesis
    using both calling by (simp add: push poll same push2 poll2 srdCount_def)
qed

lemma srdCount_simps:
  "srdCount (srdResolved p st a s) = srdCount s + 1"
  "srdCount (srdRejected p st a s) = srdCount s + 1"
  "srdCount (processQueuedIceCandidates cid s) = srdCount s"
  "srdCount (answeredRestart s) = srdCount s"
  "srdCount (answeredBackfill s) = srdCount s"
  by (simp_all add: srdCount_def srdResolved_def srdRejected_def log_def
      processQueuedIceCandidates_eq answeredRestart_eq answeredBackfill_eq
      isSRD_drainCalls isSRD_answeredCallbacks)

lemma currentCallState_simps:
  "currentCallState (answeredRestart s) = Answered"
  "currentCallState (answeredBackfill s) = Answered"
  by (simp_all add: answeredRestart_eq answeredBackfill_eq)

text \<open>
  C2 (amended). An answer for the active call arrives while the call is calling, ringing or
  answered. On the push channel \<^verbatim>\<open>setRemoteDescription\<close> is invoked once when the observed
  signaling state is \<open>have-local-offer\<close>; it is not invoked when the state is \<open>stable\<close>
  or \<open>have-remote-pranswer\<close>, where the call state is reconciled to answered; in the
  remaining phases (\<open>have-remote-offer\<close>, \<open>have-local-pranswer\<close>, \<open>closed\<close>) the
  handler invokes it all the same, once. The HTTP poll never invokes it outside
  \<open>have-local-offer\<close>, and reconciles the call state to answered when it finds the answer
  already set.
\<close>

theorem setRemoteDescription_by_phase:
  assumes conn: "pc s = Some p" and active: "activeCallUUID s = Some (ans_callId d)"
    and live: "currentCallState s = Calling \<or> currentCallState s = Ringing
               \<or> currentCallState s = Answered"
  shows "(signalingState p = HaveLocalOffer \<longrightarrow> srdCount (onAnswer E d s) = srdCount s + 1)
       \<and> (signalingState p = Stable \<or> signalingState p = HaveRemotePranswer \<longrightarrow>
            srdCount (onAnswer E d s) = srdCount s
            \<and> currentCallState (onAnswer E d s) = Answered)
       \<and> (signalingState p = HaveRemoteOffer \<or> signalingState p = HaveLocalPranswer
            \<or> signalingState p = Closed \<longrightarrow> srdCount (onAnswer E d s) = srdCount s + 1)
       \<and> (signalingState p \<noteq> HaveLocalOffer \<longrightarrow>
            srdCount (snd (pollAnswer E cid currentPc resp s)) = srdCount s)
       \<and> (signalingState p = Stable \<or> signalingState p = HaveRemotePranswer \<longrightarrow>
            resp = RespOk (Some a) \<longrightarrow> sd_sdp a \<noteq> [] \<longrightarrow> pcid p = currentPc \<longrightarrow>
            currentCallState (snd (pollAnswer E cid currentPc resp s)) = Answered)"
proof -
  have local_offer: "srdCount (onAnswer E d s) = srdCount s + 1"
    if "signalingState p = HaveLocalOffer"
    using conn active live that
    by (cases "E HaveLocalOffer (ans_answer d)")
       (auto simp: onAnswer_def srdCount_simps Let_def)
  have set: "srdCount (onAnswer E d s) = srdCount s \<and> currentCallState (onAnswer E d s) = Answered"
    if "signalingState p = Stable \<or> signalingState p = HaveRemotePranswer"
    using conn active live that
    by (auto simp: onAnswer_def srdCount_simps currentCallState_simps Let_def)
  have other: "srdCount (onAnswer E d s) = srdCount s + 1"
    if "signalingState p = HaveRemoteOffer \<or> signalingState p = HaveLocalPranswer
            \<or> signalingState p = Closed"
    using conn active live that
    by (cases "E (signalingState p) (ans_answer d)")
       (auto simp: onAnswer_def srdCount_simps Let_def)
  have poll: "srdCount (snd (pollAnswer E cid currentPc resp s)) = srdCount s"
    if "signalingState p \<noteq> HaveLocalOffer"
    using conn that
    by (auto simp: pollAnswer_def srdCount_simps Let_def split: http_result.splits option.splits)
  have poll_set: "currentCallState (snd (pollAnswer E cid currentPc resp s)) = Answered"
    if "signalingState p = Stable \<or> signalingState p = HaveRemotePranswer"
      "resp = RespOk (Some a)" "sd_sdp a \<noteq> []" "pcid p = currentPc"
    using conn that
    by (auto simp: pollAnswer_def currentCallState_simps Let_def)
  from local_offer set other poll poll_set show ?thesis by blast
qed


theorem setRemoteDescription_by_phase_witness:
  "srdCount (onAnswer exampleEngine
               \<lparr>ans_callId = ''c1'', ans_answer = exampleAnswer, ans_fromDeviceId = ''dev2''\<rparr>
               callingSession) = 1
   \<and> srdCount (onAnswer exampleEngine
               \<lparr>ans_callId = ''c1'', ans_answer = exampleAnswer, ans_fromDeviceId = ''dev2''\<rparr>
               answeredSession) = 0
   \<and> srdCount (snd (pollAnswer exampleEngine ''c1'' 7 (RespOk (Some exampleAnswer))
                      answeredSession)) = 0"
proof -
  let ?d = "\<lparr>ans_callId = ''c1'', ans_answer = exampleAnswer, ans_fromDeviceId = ''dev2''\<rparr>"
  let ?p = "\<lparr>pcid = 7, signalingState = HaveLocalOffer, remoteDescription = None,
             localDescription = Some exampleOffer\<rparr>"
  let ?q = "\<lparr>pcid = 7, signalingState = Stable, remoteDescription = Some exampleAnswer,
             localDescription = Some exampleOffer\<rparr>"
  have none_yet: "srdCount callingSession = 0" "srdCount answeredSession = 0"
    by (simp_all add: srdCount_def answeredSession_def callingSession_def idleSession_def)
  have calling: "pc callingSession = Some ?p"
      "activeCallUUID callingSession = Some (ans_callId ?d)"
      "currentCallState callingSession = Calling \<or> currentCallState callingSession = Ringing
       \<or> currentCallState callingSession = Answered"
    by (simp_all add: callingSession_def idleSession_def)
  have answered: "pc answeredSession = Some ?q"
      "activeCallUUID answeredSession = Some (ans_callId ?d)"
      "currentCallState answeredSession = Calling \<or> currentCallState answeredSession = Ringing
       \<or> currentCallState answeredSession = Answered"
    by (simp_all add: answeredSession_def callingSession_def idleSession_def)
  note a = setRemoteDescription_by_phase
    [of callingSession ?p ?d exampleEngine "''c1''" 7 "RespOk (Some exampleAnswer)" exampleAnswer,
     OF calling]
  note b = setRemoteDescription_by_phase
    [of answeredSession ?q ?d exampleEngine "''c1''" 7 "RespOk (Some exampleAnswer)" exampleAnswer,
     OF answered]
  from a b none_yet show ?thesis by simp
qed

text \<open>
  C2 as stated fails: the callee's connection is in \<open>have-remote-offer\<close> while the phone
  rings, and an answer event for that call makes the push handler invoke
  \<^verbatim>\<open>setRemoteDescription\<close>.
\<close>

theorem push_handler_sets_description_in_wrong_phase:
  "pc ringingSession
     = Some \<lparr>pcid = 8, signalingState = HaveRemoteOffer,
             remoteDescription = Some exampleOffer, localDescription = None\<rparr>
   \<and> effects (onAnswer exampleEngine
                \<lparr>ans_callId = ''c2'', ans_answer = exampleAnswer, ans_fromDeviceId = ''dev2''\<rparr>
                ringingSession)
       = [EngineSetRemoteDescription 8 exampleAnswer]"
  by (simp add: onAnswer_def ringingSession_def idleSession_def exampleEngine_def
      srdRejected_def log_def)

lemma isRelayEnd_drainCalls: "filter isRelayEnd (drainCalls cid s) = []"
  by (auto simp: drainCalls_def filter_empty_conv split: option.splits)

lemma isRelayEnd_answeredCallbacks: "filter isRelayEnd (answeredCallbacks s t) = []"
  by (simp add: answeredCallbacks_def)

text \<open>No step of the answer handling notifies the relay.\<close>

lemma relay_quiet_steps:
  "filter isRelayEnd (effects (log (EngineSetRemoteDescription n a) s))
     = filter isRelayEnd (effects s)"
  "filter isRelayEnd (effects (srdResolved p st a s)) = filter isRelayEnd (effects s)"
  "filter isRelayEnd (effects (srdRejected p st a s)) = filter isRelayEnd (effects s)"
  "filter isRelayEnd (effects (settleOk p st a s)) = filter isRelayEnd (effects s)"
  "filter isRelayEnd (effects (settleRejected p st s)) = filter isRelayEnd (effects s)"
  "filter isRelayEnd (effects (processQueuedIceCandidates cid s)) = filter isRelayEnd (effects s)"
  "filter isRelayEnd (effects (answeredRestart s)) = filter isRelayEnd (effects s)"
  "filter isRelayEnd (effects (answeredBackfill s)) = filter isRelayEnd (effects s)"
  by (simp_all add: srdResolved_def srdRejected_def settleOk_def settleRejected_def log_def
      processQueuedIceCandidates_eq answeredRestart_eq answeredBackfill_eq
      isRelayEnd_drainCalls isRelayEnd_answeredCallbacks)

lemma onAnswer_relay_quiet:
  "filter isRelayEnd (effects (onAnswer E d s)) = filter isRelayEnd (effects s)"
  by (auto simp: onAnswer_def Let_def relay_quiet_steps split: option.splits srd_result.splits)

lemma pollAnswer_relay_quiet:
  "filter isRelayEnd (effects (snd (pollAnswer E c n r s))) = filter isRelayEnd (effects s)"
  by (auto simp: pollAnswer_def Let_def relay_quiet_steps
      split: http_result.splits option.splits srd_result.splits)

lemma onAnswer_sync_relay_quiet:
  "filter isRelayEnd (effects (snd (onAnswer_sync d s))) = filter isRelayEnd (effects s)"
  by (auto simp: onAnswer_sync_def Let_def relay_quiet_steps split: option.splits)

lemma onAnswer_resume_relay_quiet:
  "filter isRelayEnd (effects (onAnswer_resume E g d s)) = filter isRelayEnd (effects s)"
  by (auto simp: onAnswer_resume_def Let_def relay_quiet_steps
      split: answer_wait.splits option.splits srd_result.splits)

lemma listener_sync_relay_quiet:
  "filter isRelayEnd (effects (snd (snd (waitForAnswer_onAnswer_sync w d s))))
     = filter isRelayEnd (effects s)"
  by (auto simp: waitForAnswer_onAnswer_sync_def relay_quiet_steps split: option.splits)

lemma listener_resume_relay_quiet:
  "filter isRelayEnd (effects (snd (waitForAnswer_onAnswer_resume E c d s)))
     = filter isRelayEnd (effects s)"
  by (auto simp: waitForAnswer_onAnswer_resume_def relay_quiet_steps
      split: option.splits srd_result.splits)

lemma socketAnswerEvent_relay_quiet:
  "filter isRelayEnd (effects (snd (snd (socketAnswerEvent E w d s))))
     = filter isRelayEnd (effects s)"
  by (simp add: socketAnswerEvent_def Let_def listener_resume_relay_quiet
      onAnswer_resume_relay_quiet listener_sync_relay_quiet onAnswer_sync_relay_quiet
      split: listener_wait.splits)

text \<open>The timer along the steps of the answer handling.\<close>

lemma timer_steps:
  "activeCallStartedAt (srdResolved p st a s) = activeCallStartedAt s"
  "activeCallStartedAt (srdRejected p st a s) = activeCallStartedAt s"
  "activeCallStartedAt (processQueuedIceCandidates cid s) = activeCallStartedAt s"
  "activeCallStartedAt (answeredRestart s) = Some (clock s)"
  "activeCallStartedAt (answeredBackfill s) = backfilled s"
  "backfilled (srdResolved p st a s) = backfilled s"
  "backfilled (srdRejected p st a s) = backfilled s"
  "backfilled (processQueuedIceCandidates cid s) = backfilled s"
  by (simp_all add: srdResolved_def srdRejected_def log_def backfilled_def
      processQueuedIceCandidates_eq answeredRestart_eq answeredBackfill_eq)

lemma answeredEarlySession_eq:
  "answeredEarlySession
     = callingSession
         \<lparr>activeCallStartedAt := Some 5000, currentCallState := Answered, clock := 9000,
          effects := [UiCallStateChange Answered (Some ''Bob''),
                      UiCallActiveChange True (Some 5000)]\<rparr>"
  by (simp add: answeredEarlySession_def exampleAnsweredUpdate_def onCallState_def
      answeredBackfill_eq backfilled_def truthy_num_def truthy_str_def answeredCallbacks_def
      callingSession_def idleSession_def)

text \<open>
  C4 (amended). The call is answered and an answered event for it is delivered again.

  A call-state update leaves the session as it is, except that a missing timer start is
  backfilled (a running timer is not reset) and that both UI callbacks are invoked again,
  with the unchanged values.

  What an answer does depends on the connection. When the connection already has the answer
  (\<open>stable\<close> or \<open>have-remote-pranswer\<close>), an answer found by the HTTP poll does exactly
  what the call-state update does, and an answer on the push channel changes nothing at
  all, whoever listens; \<^verbatim>\<open>setRemoteDescription\<close> is not invoked. When the connection is
  still in \<open>have-local-offer\<close> (the call-state update came before any answer), the answer
  is applied: \<^verbatim>\<open>setRemoteDescription\<close> is invoked, once by the poll and once by the global
  listener alone, twice by a push event that the listener of \<^verbatim>\<open>waitForAnswer\<close> hears too;
  if the engine accepts, the timer is started anew even if it runs already, and both UI
  callbacks are invoked; if the engine rejects, a running timer is kept. In the remaining
  phases the poll does nothing, the push handler invokes \<^verbatim>\<open>setRemoteDescription\<close> once
  and keeps a running timer. Without a connection an answer does nothing.

  No delivery notifies the relay.
\<close>

theorem answered_redelivery:
  assumes answered: "currentCallState s = Answered"
    and active: "activeCallUUID s = Some cid"
    and ev: "csd_state ev = ''answered''" "csd_callId ev = cid"
    and msg: "ans_callId d = cid" "ans_answer d = a"
    and sdp: "sd_sdp a \<noteq> []"
  shows "onCallState ev s
           = s\<lparr>activeCallStartedAt := backfilled s,
               effects := effects s @ answeredCallbacks s (backfilled s)\<rparr>
       \<and> (truthy_num (activeCallStartedAt s) \<longrightarrow> backfilled s = activeCallStartedAt s)
       \<and> (\<not> truthy_num (activeCallStartedAt s) \<longrightarrow> backfilled s = Some (clock s))
       \<and> (pc s = None \<longrightarrow>
            onAnswer E d s = s \<and> pollAnswer E cid n (RespOk (Some a)) s = (False, s))
       \<and> (pc s = Some p \<and> (signalingState p = Stable \<or> signalingState p = HaveRemotePranswer)
            \<longrightarrow>
            pollAnswer E cid (pcid p) (RespOk (Some a)) s
              = (True, s\<lparr>activeCallStartedAt := backfilled s,
                         effects := effects s @ answeredCallbacks s (backfilled s)\<rparr>)
            \<and> onAnswer E d s = s
            \<and> snd (snd (socketAnswerEvent E w d s)) = s)
       \<and> (pc s = Some p \<and> signalingState p = HaveLocalOffer
            \<and> E HaveLocalOffer a = SrdOk st' \<longrightarrow>
            onAnswer E d s = answerApplied p st' a cid s
            \<and> pollAnswer E cid (pcid p) (RespOk (Some a)) s = (True, answerApplied p st' a cid s)
            \<and> activeCallStartedAt (answerApplied p st' a cid s) = Some (clock s)
            \<and> srdCount (answerApplied p st' a cid s) = srdCount s + 1
            \<and> effects (answerApplied p st' a cid s)
                = effects s @ [EngineSetRemoteDescription (pcid p) a]
                    @ drainCalls cid (srdResolved p st' a s)
                    @ answeredCallbacks s (Some (clock s))
            \<and> srdCount (snd (snd (socketAnswerEvent E (Some (cid, pcid p)) d s)))
                = srdCount s + 2
            \<and> activeCallStartedAt (snd (snd (socketAnswerEvent E (Some (cid, pcid p)) d s)))
                = Some (clock s))
       \<and> (pc s = Some p \<and> signalingState p = HaveLocalOffer
            \<and> E HaveLocalOffer a = SrdThrows m st' \<longrightarrow>
            srdCount (onAnswer E d s) = srdCount s + 1
            \<and> srdCount (snd (pollAnswer E cid (pcid p) (RespOk (Some a)) s)) = srdCount s + 1
            \<and> (truthy_num (activeCallStartedAt s) \<longrightarrow>
                 activeCallStartedAt (onAnswer E d s) = activeCallStartedAt s
                 \<and> activeCallStartedAt (snd (pollAnswer E cid (pcid p) (RespOk (Some a)) s))
                     = activeCallStartedAt s))
       \<and> (pc s = Some p \<and> signalingState p \<noteq> HaveLocalOffer \<and> signalingState p \<noteq> Stable
            \<and> signalingState p \<noteq> HaveRemotePranswer \<longrightarrow>
            srdCount (onAnswer E d s) = srdCount s + 1
            \<and> pollAnswer E cid (pcid p) (RespOk (Some a)) s = (False, s)
            \<and> (truthy_num (activeCallStartedAt s) \<longrightarrow>
                 activeCallStartedAt (onAnswer E d s) = activeCallStartedAt s))
       \<and> filter isRelayEnd (effects (onCallState ev s)) = filter isRelayEnd (effects s)
       \<and> filter isRelayEnd (effects (onAnswer E d s)) = filter isRelayEnd (effects s)
       \<and> filter isRelayEnd (effects (snd (pollAnswer E cid n r s)))
           = filter isRelayEnd (effects s)
       \<and> filter isRelayEnd (effects (snd (snd (socketAnswerEvent E w d s))))
           = filter isRelayEnd (effects s)
       \<and> filter isSetRemoteDescription (answeredCallbacks s (backfilled s)) = []"
proof -
  have fill: "answeredBackfill s
           = s\<lparr>activeCallStartedAt := backfilled s,
               effects := effects s @ answeredCallbacks s (backfilled s)\<rparr>"
    using answered by (simp add: answeredBackfill_eq)
  have same: "s\<lparr>activeCallUUID := Some cid\<rparr> = s"
    using active by simp
  have update: "onCallState ev s = answeredBackfill s"
    using ev active by (simp add: onCallState_def same)
  have timer: "(truthy_num (activeCallStartedAt s) \<longrightarrow> backfilled s = activeCallStartedAt s)
       \<and> (\<not> truthy_num (activeCallStartedAt s) \<longrightarrow> backfilled s = Some (clock s))"
    by (simp add: backfilled_def)
  have kept: "backfilled s = activeCallStartedAt s" if "truthy_num (activeCallStartedAt s)"
    using that by (simp add: backfilled_def)
  have absent: "onAnswer E d s = s \<and> pollAnswer E cid n (RespOk (Some a)) s = (False, s)"
    if "pc s = None"
    using that by (simp add: onAnswer_def pollAnswer_def)
  have settled: "pollAnswer E cid (pcid p) (RespOk (Some a)) s = (True, answeredBackfill s)
            \<and> onAnswer E d s = s
            \<and> snd (snd (socketAnswerEvent E w d s)) = s"
    if conn: "pc s = Some p"
      and st: "signalingState p = Stable \<or> signalingState p = HaveRemotePranswer"
  proof -
    have "onAnswer E d s = s"
      using conn st active answered msg by (auto simp: onAnswer_def Let_def)
    moreover have "snd (snd (socketAnswerEvent E w d s)) = s"
      using push_on_settled[of s p d E w] conn st active answered msg by simp
    ultimately show ?thesis
      using poll_on_settled[of s p a E cid, OF conn st sdp] by simp
  qed
  have accepted: "onAnswer E d s = answerApplied p st' a cid s
            \<and> pollAnswer E cid (pcid p) (RespOk (Some a)) s = (True, answerApplied p st' a cid s)
            \<and> activeCallStartedAt (answerApplied p st' a cid s) = Some (clock s)
            \<and> srdCount (answerApplied p st' a cid s) = srdCount s + 1
            \<and> effects (answerApplied p st' a cid s)
                = effects s @ [EngineSetRemoteDescription (pcid p) a]
                    @ drainCalls cid (srdResolved p st' a s)
                    @ answeredCallbacks s (Some (clock s))
            \<and> srdCount (snd (snd (socketAnswerEvent E (Some (cid, pcid p)) d s)))
                = srdCount s + 2
            \<and> activeCallStartedAt (snd (snd (socketAnswerEvent E (Some (cid, pcid p)) d s)))
                = Some (clock s)"
    if conn: "pc s = Some p" and offer: "signalingState p = HaveLocalOffer"
      and accepts: "E HaveLocalOffer a = SrdOk st'"
  proof -
    let ?s1 = "answerApplied p st' a cid s"
    let ?t0 = "?s1\<lparr>effects := effects s
                 @ [EngineSetRemoteDescription (pcid p) a, EngineSetRemoteDescription (pcid p) a]
                 @ drainCalls cid (srdResolved p st' a s)
                 @ answeredCallbacks s (Some (clock s))\<rparr>"
    note s1 = answer_applied[of ?s1 cid p st' a s, OF answerApplied_def]
    have push: "onAnswer E d s = ?s1"
      using conn offer active answered msg accepts
      by (auto simp: onAnswer_def answerApplied_def)
    have poll: "pollAnswer E cid (pcid p) (RespOk (Some a)) s = (True, ?s1)"
      using conn offer sdp accepts by (simp add: pollAnswer_def answerApplied_def)
    have log: "effects ?s1 = effects s @ [EngineSetRemoteDescription (pcid p) a]
                    @ drainCalls cid (srdResolved p st' a s)
                    @ answeredCallbacks s (Some (clock s))"
      by (simp add: answerApplied_eq)
    have live3: "currentCallState s = Calling \<or> currentCallState s = Ringing
                 \<or> currentCallState s = Answered"
      using answered by simp
    have both: "socketAnswerEvent E (Some (cid, pcid p)) d s
                  = (None, waitForAnswer_onAnswer_resume E cid d ?t0)"
      by (rule both_listeners_called[of s p d E st', unfolded msg,
            OF conn offer active live3 accepts])
    have t0_count: "srdCount ?t0 = srdCount s + 2"
      by (simp add: srdCount_def isSRD_drainCalls isSRD_answeredCallbacks)
    have t0_timer: "activeCallStartedAt ?t0 = Some (clock ?t0)"
      using s1(3,5) by simp
    have t0_clock: "clock ?t0 = clock s"
      using s1(5) by simp
    have twice: "srdCount (snd (snd (socketAnswerEvent E (Some (cid, pcid p)) d s)))
                   = srdCount s + 2"
      unfolding both snd_conv listener_resume_quiet by (rule t0_count)
    have anew: "activeCallStartedAt (snd (snd (socketAnswerEvent E (Some (cid, pcid p)) d s)))
                  = Some (clock s)"
      unfolding both snd_conv
      using listener_resume_timer[of ?t0 E cid d, OF t0_timer] unfolding t0_clock .
    from push poll s1(3,6) log twice anew show ?thesis by simp
  qed
  have rejected: "srdCount (onAnswer E d s) = srdCount s + 1
            \<and> srdCount (snd (pollAnswer E cid (pcid p) (RespOk (Some a)) s)) = srdCount s + 1
            \<and> (truthy_num (activeCallStartedAt s) \<longrightarrow>
                 activeCallStartedAt (onAnswer E d s) = activeCallStartedAt s
                 \<and> activeCallStartedAt (snd (pollAnswer E cid (pcid p) (RespOk (Some a)) s))
                     = activeCallStartedAt s)"
    if conn: "pc s = Some p" and offer: "signalingState p = HaveLocalOffer"
      and rejects: "E HaveLocalOffer a = SrdThrows m st'"
  proof -
    have push: "onAnswer E d s
                  = (if wrongStateMessage m \<and> (st' = Stable \<or> st' = HaveRemotePranswer)
                     then answeredBackfill (processQueuedIceCandidates cid (srdRejected p st' a s))
                     else srdRejected p st' a s)"
      using conn offer active answered msg rejects by (auto simp: onAnswer_def Let_def)
    have poll: "snd (pollAnswer E cid (pcid p) (RespOk (Some a)) s)
                  = (if wrongStateMessage m then answeredBackfill (srdRejected p st' a s)
                     else srdRejected p st' a s)"
      using conn offer sdp rejects by (simp add: pollAnswer_def)
    show ?thesis
      unfolding push poll by (simp add: srdCount_simps timer_steps kept)
  qed
  have other: "srdCount (onAnswer E d s) = srdCount s + 1
            \<and> pollAnswer E cid (pcid p) (RespOk (Some a)) s = (False, s)
            \<and> (truthy_num (activeCallStartedAt s) \<longrightarrow>
                 activeCallStartedAt (onAnswer E d s) = activeCallStartedAt s)"
    if conn: "pc s = Some p" and st: "signalingState p \<noteq> HaveLocalOffer"
      "signalingState p \<noteq> Stable" "signalingState p \<noteq> HaveRemotePranswer"
  proof -
    have push: "onAnswer E d s
                  = (case E (signalingState p) a of
                       SrdOk st' \<Rightarrow>
                         answeredBackfill
                           (processQueuedIceCandidates cid (srdResolved p st' a s))
                     | SrdThrows errorMsg st' \<Rightarrow> srdRejected p st' a s)"
      using conn st active answered msg
      by (simp add: onAnswer_def Let_def split: srd_result.splits)
    have poll: "pollAnswer E cid (pcid p) (RespOk (Some a)) s = (False, s)"
      using conn st sdp by (simp add: pollAnswer_def Let_def)
    show ?thesis
      unfolding push poll
      by (simp add: srdCount_simps timer_steps kept split: srd_result.splits)
  qed
  have relay: "filter isRelayEnd (effects (onCallState ev s)) = filter isRelayEnd (effects s)"
    unfolding update by (rule relay_quiet_steps)
  have quiet: "filter isSetRemoteDescription (answeredCallbacks s (backfilled s)) = []"
    by (rule isSRD_answeredCallbacks)
  from update timer absent settled accepted rejected other relay quiet show ?thesis
    unfolding fill
    by (simp add: onAnswer_relay_quiet pollAnswer_relay_quiet socketAnswerEvent_relay_quiet)
qed

theorem answered_redelivery_witness:
  "onCallState exampleAnsweredUpdate answeredSession
   = answeredSession
       \<lparr>effects := [UiCallStateChange Answered (Some ''Bob''),
                    UiCallActiveChange True (Some 4000)]\<rparr>
   \<and> onAnswer exampleEngine exampleAnswerEvent answeredSession = answeredSession
   \<and> activeCallStartedAt (onAnswer exampleEngine exampleAnswerEvent answeredEarlySession)
       = Some 9000
   \<and> srdCount (onAnswer exampleEngine exampleAnswerEvent answeredEarlySession) = 1
   \<and> srdCount (snd (snd (socketAnswerEvent exampleEngine (Some (''c1'', 7)) exampleAnswerEvent
                           answeredEarlySession))) = 2"
proof -
  let ?q = "\<lparr>pcid = 7, signalingState = Stable, remoteDescription = Some exampleAnswer,
             localDescription = Some exampleOffer\<rparr>"
  let ?p = "\<lparr>pcid = 7, signalingState = HaveLocalOffer, remoteDescription = None,
             localDescription = Some exampleOffer\<rparr>"
  have ev: "csd_state exampleAnsweredUpdate = ''answered''"
      "csd_callId exampleAnsweredUpdate = ''c1''"
    and msg: "ans_callId exampleAnswerEvent = ''c1''"
      "ans_answer exampleAnswerEvent = exampleAnswer"
    and sdp: "sd_sdp exampleAnswer \<noteq> []"
    and accepts: "exampleEngine HaveLocalOffer exampleAnswer = SrdOk Stable"
    by (simp_all add: exampleAnsweredUpdate_def exampleAnswerEvent_def exampleAnswer_def
        exampleEngine_def)
  have late: "currentCallState answeredSession = Answered"
      "activeCallUUID answeredSession = Some ''c1''"
    and late_conn: "pc answeredSession = Some ?q"
    by (simp_all add: answeredSession_def callingSession_def idleSession_def)
  have timer: "backfilled answeredSession = Some 4000"
    and calls: "answeredCallbacks answeredSession (Some 4000)
                  = [UiCallStateChange Answered (Some ''Bob''), UiCallActiveChange True (Some 4000)]"
    and quiet: "effects answeredSession = []"
    and started: "activeCallStartedAt answeredSession = Some 4000"
    by (simp_all add: backfilled_def truthy_num_def answeredCallbacks_def answeredSession_def
        callingSession_def idleSession_def)
  have same: "answeredSession\<lparr>activeCallStartedAt := Some 4000\<rparr> = answeredSession"
    using started by simp
  have early: "currentCallState answeredEarlySession = Answered"
      "activeCallUUID answeredEarlySession = Some ''c1''"
    and early_conn: "pc answeredEarlySession = Some ?p"
    and early_clock: "clock answeredEarlySession = 9000"
    and early_count: "srdCount answeredEarlySession = 0"
    by (simp_all add: answeredEarlySession_eq srdCount_def callingSession_def idleSession_def)
  note again = answered_redelivery
    [where s = answeredSession and cid = "''c1''" and ev = exampleAnsweredUpdate
       and d = exampleAnswerEvent and a = exampleAnswer and E = exampleEngine and p = ?q,
     OF late ev msg sdp]
  note first = answered_redelivery
    [where s = answeredEarlySession and cid = "''c1''" and ev = exampleAnsweredUpdate
       and d = exampleAnswerEvent and a = exampleAnswer and E = exampleEngine and p = ?p
       and st' = Stable,
     OF early ev msg sdp]
  have update: "onCallState exampleAnsweredUpdate answeredSession
                  = answeredSession
                      \<lparr>effects := [UiCallStateChange Answered (Some ''Bob''),
                                   UiCallActiveChange True (Some 4000)]\<rparr>"
    using again[THEN conjunct1] by (simp add: timer calls quiet same)
  have push: "onAnswer exampleEngine exampleAnswerEvent answeredSession = answeredSession"
    using again late_conn by simp
  have applied: "onAnswer exampleEngine exampleAnswerEvent answeredEarlySession
                   = answerApplied ?p Stable exampleAnswer ''c1'' answeredEarlySession"
    and anew: "activeCallStartedAt
                 (answerApplied ?p Stable exampleAnswer ''c1'' answeredEarlySession)
                 = Some (clock answeredEarlySession)"
    and once: "srdCount (answerApplied ?p Stable exampleAnswer ''c1'' answeredEarlySession)
                 = srdCount answeredEarlySession + 1"
    and twice: "srdCount (snd (snd (socketAnswerEvent exampleEngine (Some (''c1'', 7))
                                      exampleAnswerEvent answeredEarlySession)))
                  = srdCount answeredEarlySession + 2"
    using first early_conn accepts by simp_all
  show ?thesis
    using update push anew once twice by (simp add: applied early_clock early_count)
qed

text \<open>
  C4 as stated fails, twice over. The call is answered and stays answered, yet the repeated
  call-state update invokes both UI callbacks once more. And when the call-state update
  has made the call answered while the connection still waits for the answer, the timer
  runs since 5000; the answer that arrives at 9000 is applied and starts the timer anew.
\<close>

theorem answered_redelivery_invokes_callbacks:
  "currentCallState answeredSession = Answered
   \<and> effects answeredSession = []
   \<and> currentCallState
       (onCallState \<lparr>csd_callId = ''c1'', csd_state = ''answered'', csd_direction = ''outgoing'',
                     csd_peerDeviceId = None, csd_callerName = None, csd_fromLoyaltyId = None\<rparr>
          answeredSession) = Answered
   \<and> effects
       (onCallState \<lparr>csd_callId = ''c1'', csd_state = ''answered'', csd_direction = ''outgoing'',
                     csd_peerDeviceId = None, csd_callerName = None, csd_fromLoyaltyId = None\<rparr>
          answeredSession)
       = [UiCallStateChange Answered (Some ''Bob''), UiCallActiveChange True (Some 4000)]
   \<and> currentCallState answeredEarlySession = Answered
   \<and> activeCallStartedAt answeredEarlySession = Some 5000
   \<and> srdCount answeredEarlySession = 0
   \<and> activeCallStartedAt (onAnswer exampleEngine exampleAnswerEvent answeredEarlySession)
       = Some 9000
   \<and> srdCount (onAnswer exampleEngine exampleAnswerEvent answeredEarlySession) = 1
   \<and> activeCallStartedAt
       (snd (pollAnswer exampleEngine ''c1'' 7 (RespOk (Some exampleAnswer))
               answeredEarlySession)) = Some 9000
   \<and> srdCount (snd (pollAnswer exampleEngine ''c1'' 7 (RespOk (Some exampleAnswer))
                      answeredEarlySession)) = 1"
proof -
  have update: "currentCallState answeredSession = Answered
   \<and> effects answeredSession = []
   \<and> currentCallState
       (onCallState \<lparr>csd_callId = ''c1'', csd_state = ''answered'', csd_direction = ''outgoing'',
                     csd_peerDeviceId = None, csd_callerName = None, csd_fromLoyaltyId = None\<rparr>
          answeredSession) = Answered
   \<and> effects
       (onCallState \<lparr>csd_callId = ''c1'', csd_state = ''answered'', csd_direction = ''outgoing'',
                     csd_peerDeviceId = None, csd_callerName = None, csd_fromLoyaltyId = None\<rparr>
          answeredSession)
       = [UiCallStateChange Answered (Some ''Bob''), UiCallActiveChange True (Some 4000)]"
    by (simp add: onCallState_def answeredBackfill_eq backfilled_def truthy_num_def
        truthy_str_def answeredCallbacks_def answeredSession_def callingSession_def
        idleSession_def)
  have early: "currentCallState answeredEarlySession = Answered"
      "activeCallStartedAt answeredEarlySession = Some 5000"
      "srdCount answeredEarlySession = 0"
    by (simp_all add: answeredEarlySession_eq srdCount_def callingSession_def idleSession_def)
  have push: "onAnswer exampleEngine exampleAnswerEvent answeredEarlySession
                = answerApplied \<lparr>pcid = 7, signalingState = HaveLocalOffer,
                                  remoteDescription = None,
                                  localDescription = Some exampleOffer\<rparr>
                    Stable exampleAnswer ''c1'' answeredEarlySession"
    by (simp add: onAnswer_def Let_def answerApplied_def exampleEngine_def
        exampleAnswerEvent_def exampleAnswer_def answeredEarlySession_eq callingSession_def
        idleSession_def)
  have poll: "pollAnswer exampleEngine ''c1'' 7 (RespOk (Some exampleAnswer))
                answeredEarlySession
                = (True, answerApplied \<lparr>pcid = 7, signalingState = HaveLocalOffer,
                                         remoteDescription = None,
                                         localDescription = Some exampleOffer\<rparr>
                           Stable exampleAnswer ''c1'' answeredEarlySession)"
    by (simp add: pollAnswer_def Let_def answerApplied_def exampleEngine_def
        exampleAnswer_def answeredEarlySession_eq callingSession_def idleSession_def)
  have applied: "activeCallStartedAt
                   (answerApplied \<lparr>pcid = 7, signalingState = HaveLocalOffer,
                                    remoteDescription = None,
                                    localDescription = Some exampleOffer\<rparr>
                      Stable exampleAnswer ''c1'' answeredEarlySession) = Some 9000"
      "srdCount (answerApplied \<lparr>pcid = 7, signalingState = HaveLocalOffer,
                                 remoteDescription = None,
                                 localDescription = Some exampleOffer\<rparr>
                   Stable exampleAnswer ''c1'' answeredEarlySession) = 1"
    by (simp_all add: answerApplied_eq srdCount_def isSRD_drainCalls isSRD_answeredCallbacks
        answeredEarlySession_eq callingSession_def idleSession_def)
  from update early applied show ?thesis
    by (simp add: push poll)
qed

section \<open>Properties of the candidate handler and of reject\<close>

text \<open>
  C6 (amended). An inbound candidate message is stored at the end of the queue when a peer
  connection exists, the message is for the active call and the connection has no remote
  description yet; it is handed to \<^verbatim>\<open>addIceCandidate\<close> at once when a peer connection
  exists, the message is for the active call and the connection has a remote description;
  in every other case (a foreign or stale call id, no peer connection, or a null candidate)
  it is dropped and the session stays as it is. No case raises an error.
\<close>

theorem onIceCandidate_cases:
  "(ice_candidate d = Some c \<and> pc s = Some p \<and> activeCallUUID s = Some (ice_callId d)
      \<and> remoteDescription p = None
      \<longrightarrow> onIceCandidate d s = s\<lparr>queuedIceCandidates := queuedIceCandidates s @ [d]\<rparr>)
   \<and> (ice_candidate d = Some c \<and> pc s = Some p \<and> activeCallUUID s = Some (ice_callId d)
      \<and> remoteDescription p \<noteq> None
      \<longrightarrow> onIceCandidate d s = s\<lparr>effects := effects s @ [EngineAddIceCandidate (pcid p) c]\<rparr>)
   \<and> (ice_candidate d = None \<or> pc s = None \<or> activeCallUUID s \<noteq> Some (ice_callId d)
      \<longrightarrow> onIceCandidate d s = s)"
  by (auto simp: onIceCandidate_def log_def split: option.splits)

theorem onIceCandidate_cases_witness:
  "onIceCandidate
     \<lparr>ice_callId = ''c1'', ice_candidate = Some ''cand-a'', ice_fromDeviceId = ''dev2''\<rparr>
     callingSession
   = callingSession
       \<lparr>queuedIceCandidates :=
          [\<lparr>ice_callId = ''c1'', ice_candidate = Some ''cand-a'', ice_fromDeviceId = ''dev2''\<rparr>]\<rparr>
   \<and> onIceCandidate
       \<lparr>ice_callId = ''c1'', ice_candidate = Some ''cand-a'', ice_fromDeviceId = ''dev2''\<rparr>
       answeredSession
     = answeredSession\<lparr>effects := [EngineAddIceCandidate 7 ''cand-a'']\<rparr>
   \<and> onIceCandidate
       \<lparr>ice_callId = ''c0'', ice_candidate = Some ''cand-x'', ice_fromDeviceId = ''dev9''\<rparr>
       callingSession
     = callingSession"
proof -
  let ?a = "\<lparr>ice_callId = ''c1'', ice_candidate = Some ''cand-a'', ice_fromDeviceId = ''dev2''\<rparr>"
  let ?x = "\<lparr>ice_callId = ''c0'', ice_candidate = Some ''cand-x'', ice_fromDeviceId = ''dev9''\<rparr>"
  let ?p = "\<lparr>pcid = 7, signalingState = HaveLocalOffer, remoteDescription = None,
             localDescription = Some exampleOffer\<rparr>"
  let ?q = "\<lparr>pcid = 7, signalingState = Stable, remoteDescription = Some exampleAnswer,
             localDescription = Some exampleOffer\<rparr>"
  have waiting: "ice_candidate ?a = Some ''cand-a'' \<and> pc callingSession = Some ?p
      \<and> activeCallUUID callingSession = Some (ice_callId ?a) \<and> remoteDescription ?p = None"
    and foreign: "ice_candidate ?x = None \<or> pc callingSession = None
      \<or> activeCallUUID callingSession \<noteq> Some (ice_callId ?x)"
    and empty: "queuedIceCandidates callingSession = []"
    by (simp_all add: callingSession_def idleSession_def)
  have talking: "ice_candidate ?a = Some ''cand-a'' \<and> pc answeredSession = Some ?q
      \<and> activeCallUUID answeredSession = Some (ice_callId ?a) \<and> remoteDescription ?q \<noteq> None"
    and quiet: "effects answeredSession = []"
    by (simp_all add: answeredSession_def callingSession_def idleSession_def)
  from onIceCandidate_cases[of ?a "''cand-a''" callingSession ?p, THEN conjunct1] waiting
  have stored: "onIceCandidate ?a callingSession
      = callingSession\<lparr>queuedIceCandidates := queuedIceCandidates callingSession @ [?a]\<rparr>"
    by blast
  from onIceCandidate_cases[of ?a "''cand-a''" answeredSession ?q, THEN conjunct2, THEN conjunct1]
    talking
  have applied: "onIceCandidate ?a answeredSession
      = answeredSession\<lparr>effects := effects answeredSession @ [EngineAddIceCandidate (pcid ?q) ''cand-a'']\<rparr>"
    by blast
  from onIceCandidate_cases[of ?x "''cand-x''" callingSession ?p, THEN conjunct2, THEN conjunct2]
    foreign
  have dropped: "onIceCandidate ?x callingSession = callingSession"
    by blast
  from stored applied dropped show ?thesis
    by (simp add: empty quiet)
qed

text \<open>
  C6 as stated fails. The call-state event \<open>ringing\<close> makes call \<open>c2\<close> the active call
  before any peer connection exists; a candidate for \<open>c2\<close> that arrives then is neither
  stored nor applied.
\<close>

theorem candidate_dropped_without_connection:
  "activeCallUUID
     (onCallState \<lparr>csd_callId = ''c2'', csd_state = ''ringing'', csd_direction = ''incoming'',
                   csd_peerDeviceId = None, csd_callerName = Some ''Alice'',
                   csd_fromLoyaltyId = None\<rparr> idleSession) = Some ''c2''
   \<and> queuedIceCandidates
       (onIceCandidate
          \<lparr>ice_callId = ''c2'', ice_candidate = Some ''cand-a'', ice_fromDeviceId = ''dev2''\<rparr>
          (onCallState \<lparr>csd_callId = ''c2'', csd_state = ''ringing'', csd_direction = ''incoming'',
                        csd_peerDeviceId = None, csd_callerName = Some ''Alice'',
                        csd_fromLoyaltyId = None\<rparr> idleSession)) = []
   \<and> effects
       (onIceCandidate
          \<lparr>ice_callId = ''c2'', ice_candidate = Some ''cand-a'', ice_fromDeviceId = ''dev2''\<rparr>
          (onCallState \<lparr>csd_callId = ''c2'', csd_state = ''ringing'', csd_direction = ''incoming'',
                        csd_peerDeviceId = None, csd_callerName = Some ''Alice'',
                        csd_fromLoyaltyId = None\<rparr> idleSession))
       = [UiCallStateChange Ringing (Some ''Alice'')]"
  by (simp add: onIceCandidate_def onCallState_def incomingCallerName_def truthy_str_def
      str_of_def callStateChanged_def log_def idleSession_def)

text \<open>\<^verbatim>\<open>rejectCall\<close> in one step: what it resets and what it calls, in order.\<close>

lemma rejectCall_eq:
  "rejectCall callUUID s =
     s\<lparr>pc := None, localStream := None, remoteStream := None, activeCallUUID := None,
       activeCallStartedAt := None, currentCallState := Idle, callerName := None,
       queuedIceCandidates := [],
       effects := effects s
         @ (if onCallStateChange s then [UiCallStateChange Rejected (callerName s)] else [])
         @ (if truthy_str (currentDeviceId s) then [RelayEnd callUUID (Some ''rejected'')] else [])
         @ closeCalls (pc s) @ stopCalls (localStream s) @ stopCalls (remoteStream s)
         @ relayEndCalls (activeCallUUID s) (currentDeviceId s)
         @ resetCallbacks (onCallStateChange s) (onCallActiveChange s)
         @ [SetTimeout 2000]\<rparr>"
  by (simp add: rejectCall_def Let_def endVoiceCall_eq callStateChanged_def log_def)

text \<open>
  C8 (the code departs from it). Alice's call \<open>c2\<close> rings and the user rejects it. When
  \<^verbatim>\<open>rejectCall\<close> is done, and before the timer of 2000 ms it has just set can fire, the
  call state is already idle and the caller name already cleared: \<^verbatim>\<open>endVoiceCall\<close>,
  called right after the relay request, resets both and tells the UI so. The relay has
  been notified twice, with reason \<open>rejected\<close> and then without a reason. The timer's
  callback then finds nothing left to reset.
\<close>

theorem rejectCall_idle_before_timeout:
  "currentCallState (rejectCall ''c2'' ringingSession) = Idle
   \<and> callerName (rejectCall ''c2'' ringingSession) = None
   \<and> effects (rejectCall ''c2'' ringingSession) =
       [UiCallStateChange Rejected (Some ''Alice''), RelayEnd ''c2'' (Some ''rejected''),
        EngineClose 8, TrackStop 3, RelayEnd ''c2'' None,
        UiCallStateChange Idle None, UiCallActiveChange False None, SetTimeout 2000]
   \<and> (rejectCall_timeout (rejectCall ''c2'' ringingSession))
         \<lparr>effects := effects (rejectCall ''c2'' ringingSession)\<rparr>
       = rejectCall ''c2'' ringingSession"
  by (simp add: rejectCall_eq rejectCall_timeout_def callStateChanged_def log_def
      ringingSession_def idleSession_def closeCalls_def stopCalls_def
      relayEndCalls_def resetCallbacks_def truthy_str_def)

section \<open>Properties of the HTTP poll\<close>

declare waitForAnswerHTTP_loop.simps [simp del]

lemma polls_fetches: "length (filter isFetch (polls cid k)) = k"
  by (induction k) (simp_all add: polls_def)

lemma polls_Suc: "Sleep 1000 # Fetch cid # polls cid k = polls cid (Suc k)"
  by (simp add: polls_def)

text \<open>
  The input/output of the loop from iteration \<open>i\<close> on: some number of polls, at most
  \<open>30 - i\<close> of them, each after a sleep of one second, and possibly one last sleep after
  which the loop found the call gone.
\<close>

lemma waitForAnswerHTTP_loop_shape:
  "\<exists>k. k \<le> 30 - i
       \<and> (snd (waitForAnswerHTTP_loop E cid currentPc env i s) = polls cid k
           \<or> (k < 30 - i
               \<and> snd (waitForAnswerHTTP_loop E cid currentPc env i s)
                   = polls cid k @ [Sleep 1000]))"
proof (induction E cid currentPc env i s rule: waitForAnswerHTTP_loop.induct)
  case (1 E cid currentPc env i s)
  let ?s1 = "during_sleep (env i) s"
  let ?r = "pollAnswer E cid currentPc (response (env i)) (during_fetch (env i) ?s1)"
  show ?case
  proof (cases "i < 30")
    case False
    then have "snd (waitForAnswerHTTP_loop E cid currentPc env i s) = polls cid 0"
      by (simp add: waitForAnswerHTTP_loop.simps[of E cid currentPc env i s] polls_def)
    then show ?thesis by blast
  next
    case running: True
    show ?thesis
    proof (cases "callCeased currentPc ?s1")
      case True
      with running have "snd (waitForAnswerHTTP_loop E cid currentPc env i s)
                           = polls cid 0 @ [Sleep 1000]"
        by (simp add: waitForAnswerHTTP_loop.simps[of E cid currentPc env i s] polls_def)
      with running show ?thesis by (intro exI[of _ 0]) simp
    next
      case active: False
      show ?thesis
      proof (cases "fst ?r")
        case True
        with running active
        have "snd (waitForAnswerHTTP_loop E cid currentPc env i s) = polls cid 1"
          by (simp add: waitForAnswerHTTP_loop.simps[of E cid currentPc env i s] polls_def)
        with running show ?thesis by (intro exI[of _ 1]) simp
      next
        case False
        from "1.IH"[OF running refl active refl False]
        obtain k where k: "k \<le> 30 - Suc i"
          and shape: "snd (waitForAnswerHTTP_loop E cid currentPc env (Suc i) (snd ?r))
                        = polls cid k
                      \<or> (k < 30 - Suc i
                          \<and> snd (waitForAnswerHTTP_loop E cid currentPc env (Suc i) (snd ?r))
                              = polls cid k @ [Sleep 1000])"
          by blast
        have step: "snd (waitForAnswerHTTP_loop E cid currentPc env i s)
                = Sleep 1000 # Fetch cid
                  # snd (waitForAnswerHTTP_loop E cid currentPc env (Suc i) (snd ?r))"
          using running active False
          by (simp add: waitForAnswerHTTP_loop.simps[of E cid currentPc env i s] Let_def)
        from shape show ?thesis
        proof
          assume "snd (waitForAnswerHTTP_loop E cid currentPc env (Suc i) (snd ?r)) = polls cid k"
          with step have "snd (waitForAnswerHTTP_loop E cid currentPc env i s)
                            = polls cid (Suc k)"
            by (simp add: polls_Suc)
          with k running show ?thesis by (intro exI[of _ "Suc k"]) simp
        next
          assume rest: "k < 30 - Suc i
                  \<and> snd (waitForAnswerHTTP_loop E cid currentPc env (Suc i) (snd ?r))
                      = polls cid k @ [Sleep 1000]"
          with step have "snd (waitForAnswerHTTP_loop E cid currentPc env i s)
                            = polls cid (Suc k) @ [Sleep 1000]"
            by (simp add: polls_Suc[symmetric])
          moreover from rest have "Suc k < 30 - i" by arith
          ultimately show ?thesis by (intro exI[of _ "Suc k"]) simp
        qed
      qed
    qed
  qed
qed

lemma pollAnswer_returns_answered:
  "fst (pollAnswer E cid currentPc resp s) \<Longrightarrow>
   currentCallState (snd (pollAnswer E cid currentPc resp s)) = Answered"
  by (auto simp: pollAnswer_def Let_def answeredRestart_eq answeredBackfill_eq
      split: http_result.splits option.splits srd_result.splits if_splits)

text \<open>
  C9. The HTTP fallback always returns. It polls at most 30 times, sleeping one second
  before each poll. In every iteration, when after the sleep the peer connection is no
  longer the one it started with, or no call id is active, it returns without polling and
  without touching the session. When a poll applies the answer or finds it already set,
  the loop returns right after that poll, and the call state is answered then.
\<close>

theorem poll_bounded_and_cooperative:
  "length (filter isFetch (snd (waitForAnswerHTTP E cid env s))) \<le> 30
   \<and> (\<exists>k\<le>30. snd (waitForAnswerHTTP E cid env s) = polls cid k
             \<or> (k < 30 \<and> snd (waitForAnswerHTTP E cid env s) = polls cid k @ [Sleep 1000]))
   \<and> (i < 30 \<and> callCeased currentPc (during_sleep (env i) s')
        \<longrightarrow> waitForAnswerHTTP_loop E cid currentPc env i s'
              = (during_sleep (env i) s', [Sleep 1000]))
   \<and> (i < 30 \<and> \<not> callCeased currentPc (during_sleep (env i) s')
        \<and> fst (pollAnswer E cid currentPc (response (env i))
                 (during_fetch (env i) (during_sleep (env i) s')))
        \<longrightarrow> waitForAnswerHTTP_loop E cid currentPc env i s'
              = (snd (pollAnswer E cid currentPc (response (env i))
                        (during_fetch (env i) (during_sleep (env i) s'))),
                 [Sleep 1000, Fetch cid])
            \<and> currentCallState (fst (waitForAnswerHTTP_loop E cid currentPc env i s'))
                = Answered)
   \<and> (pc s' = Some p \<and> pcid p = currentPc \<and> sd_sdp a \<noteq> []
        \<and> (signalingState p = Stable \<or> signalingState p = HaveRemotePranswer
             \<or> (signalingState p = HaveLocalOffer \<and> E HaveLocalOffer a = SrdOk st'))
        \<longrightarrow> fst (pollAnswer E cid currentPc (RespOk (Some a)) s'))"
proof -
  have shape: "\<exists>k\<le>30. snd (waitForAnswerHTTP E cid env s) = polls cid k
             \<or> (k < 30 \<and> snd (waitForAnswerHTTP E cid env s) = polls cid k @ [Sleep 1000])"
  proof (cases "pc s")
    case None
    then have "snd (waitForAnswerHTTP E cid env s) = polls cid 0"
      by (simp add: waitForAnswerHTTP_def polls_def)
    then show ?thesis by (intro exI[of _ 0]) simp
  next
    case (Some q)
    from waitForAnswerHTTP_loop_shape[of 0 E cid "pcid q" env s] Some
    show ?thesis by (simp add: waitForAnswerHTTP_def)
  qed
  then obtain k where k: "k \<le> 30"
    and tr: "snd (waitForAnswerHTTP E cid env s) = polls cid k
             \<or> snd (waitForAnswerHTTP E cid env s) = polls cid k @ [Sleep 1000]"
    by blast
  from tr have "length (filter isFetch (snd (waitForAnswerHTTP E cid env s))) = k"
    by (auto simp: polls_fetches)
  with k have bound: "length (filter isFetch (snd (waitForAnswerHTTP E cid env s))) \<le> 30"
    by simp
  have ceased: "waitForAnswerHTTP_loop E cid currentPc env i s'
              = (during_sleep (env i) s', [Sleep 1000])"
    if "i < 30" "callCeased currentPc (during_sleep (env i) s')"
    using that by (simp add: waitForAnswerHTTP_loop.simps[of E cid currentPc env i s'])
  have found: "waitForAnswerHTTP_loop E cid currentPc env i s'
              = (snd (pollAnswer E cid currentPc (response (env i))
                        (during_fetch (env i) (during_sleep (env i) s'))),
                 [Sleep 1000, Fetch cid])"
    if "i < 30" "\<not> callCeased currentPc (during_sleep (env i) s')"
       "fst (pollAnswer E cid currentPc (response (env i))
                 (during_fetch (env i) (during_sleep (env i) s')))"
    using that by (simp add: waitForAnswerHTTP_loop.simps[of E cid currentPc env i s'])
  have sets: "fst (pollAnswer E cid currentPc (RespOk (Some a)) s')"
    if "pc s' = Some p" "pcid p = currentPc" "sd_sdp a \<noteq> []"
       "signalingState p = Stable \<or> signalingState p = HaveRemotePranswer
             \<or> (signalingState p = HaveLocalOffer \<and> E HaveLocalOffer a = SrdOk st')"
    using that by (auto simp: pollAnswer_def Let_def)
  from bound shape ceased found sets pollAnswer_returns_answered[of E cid currentPc]
  show ?thesis by simp
qed

theorem poll_bounded_and_cooperative_witness:
  "snd (waitForAnswerHTTP exampleEngine ''c1'' exampleEnv callingSession)
     = [Sleep 1000, Fetch ''c1'', Sleep 1000, Fetch ''c1'']
   \<and> currentCallState (fst (waitForAnswerHTTP exampleEngine ''c1'' exampleEnv callingSession))
       = Answered
   \<and> waitForAnswerHTTP exampleEngine ''c1'' hangupEnv callingSession
       = (endCall callingSession, [Sleep 1000, Fetch ''c1'', Sleep 1000])"
proof -
  let ?p = "\<lparr>pcid = 7, signalingState = HaveLocalOffer, remoteDescription = None,
             localDescription = Some exampleOffer\<rparr>"
  have conn: "pc callingSession = Some ?p"
    by (simp add: callingSession_def idleSession_def)
  have live: "\<not> callCeased 7 callingSession"
    by (simp add: callCeased_def truthy_str_def callingSession_def idleSession_def)
  have gone: "callCeased 7 (endCall callingSession)"
    by (simp add: callCeased_def endCall_def endVoiceCall_eq)
  have no_answer: "pollAnswer exampleEngine ''c1'' 7 (RespOk None) callingSession
                   = (False, callingSession)"
    by (simp add: pollAnswer_def)
  have first: "waitForAnswerHTTP_loop exampleEngine ''c1'' 7 env 0 callingSession
      = (fst (waitForAnswerHTTP_loop exampleEngine ''c1'' 7 env 1 callingSession),
         Sleep 1000 # Fetch ''c1''
         # snd (waitForAnswerHTTP_loop exampleEngine ''c1'' 7 env 1 callingSession))"
    if "env = exampleEnv \<or> env = hangupEnv" for env
    using that live
    by (auto simp: waitForAnswerHTTP_loop.simps[of exampleEngine "''c1''" 7 _ 0 callingSession]
        exampleEnv_def hangupEnv_def Let_def no_answer)
  note facts = poll_bounded_and_cooperative
    [of exampleEngine "''c1''" exampleEnv callingSession 1 7 callingSession ?p exampleAnswer Stable]
  have applies: "fst (pollAnswer exampleEngine ''c1'' 7 (RespOk (Some exampleAnswer)) callingSession)"
    using facts[THEN conjunct2, THEN conjunct2, THEN conjunct2, THEN conjunct2] conn
    by (simp add: exampleAnswer_def exampleEngine_def)
  have second: "waitForAnswerHTTP_loop exampleEngine ''c1'' 7 exampleEnv 1 callingSession
      = (snd (pollAnswer exampleEngine ''c1'' 7 (RespOk (Some exampleAnswer)) callingSession),
         [Sleep 1000, Fetch ''c1''])"
    and answered: "currentCallState
        (snd (pollAnswer exampleEngine ''c1'' 7 (RespOk (Some exampleAnswer)) callingSession))
          = Answered"
    using facts[THEN conjunct2, THEN conjunct2, THEN conjunct2, THEN conjunct1] live applies
    by (auto simp: exampleEnv_def)
  note hangup = poll_bounded_and_cooperative
    [of exampleEngine "''c1''" hangupEnv callingSession 1 7 callingSession ?p exampleAnswer Stable]
  have stopped: "waitForAnswerHTTP_loop exampleEngine ''c1'' 7 hangupEnv 1 callingSession
      = (endCall callingSession, [Sleep 1000])"
    using hangup[THEN conjunct2, THEN conjunct2, THEN conjunct1] gone
    by (simp add: hangupEnv_def)
  show ?thesis
    using conn first[of exampleEnv] first[of hangupEnv] second answered stopped
    by (simp add: waitForAnswerHTTP_def)
qed

section \<open>Properties of dialling\<close>






end
